theory Spec2Isabelle
  imports Main
begin

section \<open>The migrations command line (src/api/umzug/cli.js)\<close>

text \<open>
  The file wraps a migration engine (the object \<open>umzug\<close>) in a command line:
  it registers four logging listeners, reads the verb and one positional argument from
  \<open>process.argv\<close>, dispatches the verb in \<open>runTask\<close>, and turns the outcome into
  a process exit code. The engine is a library object; it is a parameter of the model.
  Every effect of the program is a field of the \<open>world\<close> record: the lines written by
  \<open>console.log\<close>, the calls made to the engine, the listeners registered on it, the
  file system and the file streams opened.
\<close>

subsection \<open>JavaScript values\<close>

text \<open>An \<open>Error\<close> object; only its \<open>message\<close> is read.\<close>

datatype js_error = Error (message: string)

text \<open>
  How a piece of the program ends: it returns, it throws, or it calls
  \<open>process.exit\<close>, which ends the process at once.
\<close>

datatype 'a completion = Return 'a | Throw js_error | Exit nat

text \<open>The value of \<open>to\<close> in the options of \<open>up\<close> and \<open>down\<close>: a string or the number 0.\<close>

datatype destination = Target string | Zero

text \<open>
  An element of a list that the engine returns: an object with a \<open>file\<close> property,
  or a plain string (the storage returns names).
\<close>

datatype migration = Migration (migration_file: string) | Name string

datatype event = Migrating | Migrated | Reverting | Reverted

text \<open>
  The calls the program makes on the engine: \<open>umzug.pending()\<close>,
  \<open>umzug.up()\<close> and \<open>umzug.up({ to })\<close>, \<open>umzug.down()\<close> and \<open>umzug.down({ to })\<close>,
  \<open>umzug.storage.executed()\<close>. \<open>None\<close> is a call without options.
\<close>

datatype engine_call = Pending | Up "destination option" | Down "destination option" | Executed

text \<open>
  The engine: for a call and its own state, the events it emits while it runs (kind and
  unit id, in order), what its promise settles to, and its new state.
\<close>

type_synonym 'e umzug =
  "engine_call \<Rightarrow> 'e \<Rightarrow> (event \<times> string) list \<times> (js_error + migration list) \<times> 'e"

datatype fs_op = CreateReadStream string | CreateWriteStream string

record 'e world =
  engine :: 'e
  listeners :: "(event \<times> (string \<Rightarrow> string)) list"
  stdout :: "string list"
  calls :: "engine_call list"
  files :: "string \<rightharpoonup> string"
  streams :: "fs_op list"

text \<open>The UTC fields of a \<open>Date\<close>, as its getters return them (the month counts from 0).\<close>

record date =
  getUTCFullYear :: int
  getUTCMonth :: nat
  getUTCDate :: nat
  getUTCHours :: nat
  getUTCMinutes :: nat
  getUTCSeconds :: nat

text \<open>
  What the program reads from the process and the platform: \<open>process.cwd()\<close>,
  \<open>new Date()\<close>, \<open>path.resolve\<close>, and the message of the error with which opening a
  path for writing fails, if it fails.
\<close>

record env =
  cwd :: string
  now :: date
  resolve :: "string list \<Rightarrow> string"
  write_error :: "string \<Rightarrow> string option"

subsection \<open>Strings and numbers\<close>

definition digit :: "nat \<Rightarrow> char" where
  "digit d = ''0123456789'' ! (d mod 10)"

text \<open>The decimal digits of a natural number, the most significant first.\<close>

fun decimal :: "nat \<Rightarrow> string" where
  "decimal n = (if 10 \<le> n then decimal (n div 10) else []) @ [digit n]"

declare decimal.simps [simp del]

text \<open>\<open>Number.prototype.toString\<close> on an integer.\<close>

definition toString :: "int \<Rightarrow> string" where
  "toString i = (if 0 \<le> i then decimal (nat i) else CHR ''-'' # decimal (nat (- i)))"

text \<open>\<open>String.prototype.padStart\<close> with a one-character filler.\<close>

definition padStart :: "nat \<Rightarrow> char \<Rightarrow> string \<Rightarrow> string" where
  "padStart targetLength c s = replicate (targetLength - length s) c @ s"

text \<open>\<open>Array.prototype.join\<close>.\<close>

fun join :: "string \<Rightarrow> string list \<Rightarrow> string" where
  "join sep [] = []"
| "join sep [x] = x"
| "join sep (x # y # ys) = x @ sep @ join sep (y # ys)"

text \<open>
  \<open>String.prototype.replace\<close> with a string pattern: only the first occurrence is
  replaced. (The replacement used by the program is empty, so the \<open>$\<close> patterns of a
  replacement string play no part.)
\<close>

fun replace :: "string \<Rightarrow> string \<Rightarrow> string \<Rightarrow> string" where
  "replace pat rep [] = (if pat = [] then rep else [])"
| "replace pat rep (c # cs) =
     (if take (length pat) (c # cs) = pat then rep @ drop (length pat) (c # cs)
      else c # replace pat rep cs)"

subsection \<open>Console, events and engine calls\<close>

definition log :: "string \<Rightarrow> 'e world \<Rightarrow> 'e world" where
  "log line w = w\<lparr>stdout := stdout w @ [line]\<rparr>"

definition "on" :: "event \<Rightarrow> (string \<Rightarrow> string) \<Rightarrow> 'e world \<Rightarrow> 'e world" where
  "on ev listener w = w\<lparr>listeners := listeners w @ [(ev, listener)]\<rparr>"

text \<open>
  Emitting an event calls the listeners registered for its kind, in registration order;
  each listener of the program writes one line.
\<close>

definition emitted :: "(event \<times> (string \<Rightarrow> string)) list \<Rightarrow> event \<times> string \<Rightarrow> string list" where
  "emitted ls e = map (\<lambda>l. snd l (snd e)) (filter (\<lambda>l. fst l = fst e) ls)"

definition emit :: "event \<times> string \<Rightarrow> 'e world \<Rightarrow> 'e world" where
  "emit e w = w\<lparr>stdout := stdout w @ emitted (listeners w) e\<rparr>"

text \<open>
  An awaited call on the engine: the call is recorded, the events it emits reach the
  listeners, the engine's state moves on, and a rejected promise is a throw.
\<close>

definition await :: "'e umzug \<Rightarrow> engine_call \<Rightarrow> 'e world \<Rightarrow> migration list completion \<times> 'e world" where
  "await umzug c w =
     (case umzug c (engine w) of
        (evs, r, e') \<Rightarrow>
          (case r of Inl error \<Rightarrow> Throw error | Inr migrations \<Rightarrow> Return migrations,
           fold emit evs (w\<lparr>engine := e', calls := calls w @ [c]\<rparr>)))"

subsection \<open>The class \<open>MigrationsCli\<close>\<close>

definition constructor :: "'e world \<Rightarrow> 'e world" where
  "constructor w =
     on Reverted (\<lambda>migration. ''== '' @ migration @ '': reverted ==\<newline>'')
       (on Reverting (\<lambda>migration. ''== '' @ migration @ '': reverting =='')
         (on Migrated (\<lambda>migration. ''== '' @ migration @ '': migrated ==\<newline>'')
           (on Migrating (\<lambda>migration. ''== '' @ migration @ '': migrating =='') w)))"

definition checkMigrations :: "'e umzug \<Rightarrow> 'e world \<Rightarrow> unit completion \<times> 'e world" where
  "checkMigrations umzug w =
     (case await umzug Pending w of
        (Return migrations, w') \<Rightarrow>
          (if length migrations > 0
           then (Exit 1,
                 log (join ''\<newline>''
                   [''You have '' @ decimal (length migrations) @ '' pending migrations.'',
                    ''Use '' @ [CHR 0x27] @ ''$ npm run umzug db:migrate:status'' @ [CHR 0x27] @ '' to show them.'',
                    ''Use '' @ [CHR 0x27] @ ''$ npm run umzug db:migrate'' @ [CHR 0x27] @ '' to execute all pending migrations.'']) w')
           else (Exit 0, w'))
      | (Throw error, w') \<Rightarrow> (Throw error, w')
      | (Exit c, w') \<Rightarrow> (Exit c, w'))"

definition migrate :: "'e umzug \<Rightarrow> string option \<Rightarrow> 'e world \<Rightarrow> unit completion \<times> 'e world" where
  "migrate umzug destination w =
     (case (case destination of
              Some d \<Rightarrow> await umzug (Up (Some (Target d))) w
            | None \<Rightarrow> await umzug (Up None) w) of
        (Return migrations, w') \<Rightarrow>
          (if length migrations > 0
           then (Return (), log (''Executed '' @ decimal (length migrations) @ '' migrations.'') w')
           else (Return (), log ''No migrations were executed.'' w'))
      | (Throw error, w') \<Rightarrow> (Throw error, w')
      | (Exit c, w') \<Rightarrow> (Exit c, w'))"

definition undo :: "'e umzug \<Rightarrow> destination option \<Rightarrow> 'e world \<Rightarrow> unit completion \<times> 'e world" where
  "undo umzug destination w =
     (case (case destination of
              Some d \<Rightarrow> await umzug (Down (Some d)) w
            | None \<Rightarrow> await umzug (Down None) w) of
        (Return migrations, w') \<Rightarrow>
          (if length migrations > 0
           then (Return (), log (''Reverted '' @ decimal (length migrations) @ '' migrations.'') w')
           else (Return (), log ''No migrations were reverted.'' w'))
      | (Throw error, w') \<Rightarrow> (Throw error, w')
      | (Exit c, w') \<Rightarrow> (Exit c, w'))"

text \<open>
  \<open>migration.file || migration\<close>, when it is a string: the \<open>file\<close> of an object when
  that is a non-empty string, the migration itself when it is a plain string (a string
  has no \<open>file\<close>). An object whose \<open>file\<close> is empty stands for itself: it is not a
  string and has no \<open>replace\<close> method, and calling it is a \<open>TypeError\<close>.
\<close>

definition file_or_migration :: "migration \<Rightarrow> string option" where
  "file_or_migration migration =
     (case migration of
        Migration f \<Rightarrow> (if f \<noteq> [] then Some f else None)
      | Name s \<Rightarrow> Some s)"

text \<open>That \<open>TypeError\<close>, with its message as the engine of the language words it.\<close>

definition replace_is_not_a_function :: js_error where
  "replace_is_not_a_function = Error ''(migration.file || migration).replace is not a function''"

definition printMigration :: "migration \<Rightarrow> nat option \<Rightarrow> 'e world \<Rightarrow> unit completion \<times> 'e world" where
  "printMigration migration index w =
     (case file_or_migration migration of
        None \<Rightarrow> (Throw replace_is_not_a_function, w)
      | Some s \<Rightarrow>
          (let fileName = replace ''.js'' [] s;
               prefix = (case index of Some i \<Rightarrow> decimal i @ '')'' | None \<Rightarrow> ''-'')
           in (Return (), log (''  '' @ prefix @ '' '' @ fileName) w)))"

text \<open>\<open>migrations.forEach((migration, index) => ...)\<close>, from the given index on.\<close>

fun forEach_printMigration :: "nat \<Rightarrow> migration list \<Rightarrow> 'e world \<Rightarrow> unit completion \<times> 'e world" where
  "forEach_printMigration index [] w = (Return (), w)"
| "forEach_printMigration index (migration # rest) w =
     (case printMigration migration (Some (index + 1)) w of
        (Return u, w') \<Rightarrow> forEach_printMigration (Suc index) rest w'
      | (Throw error, w') \<Rightarrow> (Throw error, w')
      | (Exit c, w') \<Rightarrow> (Exit c, w'))"

definition printMigrations :: "migration list \<Rightarrow> 'e world \<Rightarrow> unit completion \<times> 'e world" where
  "printMigrations migrations w = forEach_printMigration 0 migrations w"

definition printPending :: "'e umzug \<Rightarrow> 'e world \<Rightarrow> unit completion \<times> 'e world" where
  "printPending umzug w =
     (case await umzug Pending w of
        (Return migrations, w') \<Rightarrow>
          (if length migrations > 0
           then printMigrations migrations (log ''Pending migrations:'' w')
           else (Return (), log ''No pending migrations.'' w'))
      | (Throw error, w') \<Rightarrow> (Throw error, w')
      | (Exit c, w') \<Rightarrow> (Exit c, w'))"

definition printExecuted :: "'e umzug \<Rightarrow> 'e world \<Rightarrow> unit completion \<times> 'e world" where
  "printExecuted umzug w =
     (case await umzug Executed w of
        (Return migrations, w') \<Rightarrow>
          (if length migrations > 0
           then printMigrations migrations (log ''Executed migrations:'' w')
           else (Return (), log ''No executed migrations.'' w'))
      | (Throw error, w') \<Rightarrow> (Throw error, w')
      | (Exit c, w') \<Rightarrow> (Exit c, w'))"

definition format :: "int \<Rightarrow> string" where
  "format number = padStart 2 (CHR ''0'') (toString number)"

definition timestamp :: "date \<Rightarrow> string" where
  "timestamp d =
     join []
       [toString (getUTCFullYear d),
        format (int (getUTCMonth d) + 1),
        format (int (getUTCDate d)),
        format (int (getUTCHours d)),
        format (int (getUTCMinutes d)),
        format (int (getUTCSeconds d))]"

text \<open>
  The two streams of \<open>generate\<close>. \<open>fs.createWriteStream\<close> opens its path for writing,
  which creates the file or empties it; a path that cannot be opened is left alone and
  the stream fails later. Piping succeeds when the source can be read and the target
  was opened: the target then holds the source's bytes. Otherwise the promise is
  rejected with the error of the stream that failed.
\<close>

definition createReadStream :: "string \<Rightarrow> 'e world \<Rightarrow> 'e world" where
  "createReadStream p w = w\<lparr>streams := streams w @ [CreateReadStream p]\<rparr>"

definition createWriteStream :: "env \<Rightarrow> string \<Rightarrow> 'e world \<Rightarrow> 'e world" where
  "createWriteStream sys p w =
     (case write_error sys p of
        None \<Rightarrow> w\<lparr>streams := streams w @ [CreateWriteStream p], files := (files w)(p \<mapsto> [])\<rparr>
      | Some m \<Rightarrow> w\<lparr>streams := streams w @ [CreateWriteStream p]\<rparr>)"

definition pipe :: "env \<Rightarrow> string \<Rightarrow> string \<Rightarrow> 'e world \<Rightarrow> unit completion \<times> 'e world" where
  "pipe sys source target w =
     (case files w source of
        None \<Rightarrow>
          (Throw (Error (''ENOENT: no such file or directory, open '' @ [CHR 0x27] @ source @ [CHR 0x27])), w)
      | Some bytes \<Rightarrow>
          (case write_error sys target of
             Some m \<Rightarrow> (Throw (Error m), w)
           | None \<Rightarrow> (Return (), w\<lparr>files := (files w)(target \<mapsto> bytes)\<rparr>)))"

definition generate :: "env \<Rightarrow> string \<Rightarrow> 'e world \<Rightarrow> unit completion \<times> 'e world" where
  "generate sys migrationName w =
     (let migrationFileName = timestamp (now sys) @ ''-'' @ migrationName @ ''.js'';
          source = resolve sys [cwd sys, ''migrations'', ''migration.sample.js''];
          target = resolve sys [cwd sys, ''migrations'', migrationFileName]
      in (case pipe sys source target (createWriteStream sys target (createReadStream source w)) of
            (Return u, w') \<Rightarrow>
              (Return (),
               log (''Migration file '' @ [CHR 0x27] @ migrationFileName @ [CHR 0x27] @ '' has been created.'') w')
          | (Throw error, w') \<Rightarrow> (Throw error, w')
          | (Exit c, w') \<Rightarrow> (Exit c, w')))"

text \<open>The three optional fields of the options object; \<open>None\<close> is \<open>undefined\<close>.\<close>

record options =
  migrateTo :: "string option"
  undoTo :: "string option"
  migrationName :: "string option"

definition usage :: string where
  "usage =
     join ''\<newline>''
       [''Available tasks:'',
        ''  - db:migrate [destination] - Execute all pending migrations [up to specified one]'',
        ''  - db:migrate:status - Show all pending migrations'',
        ''  - db:migrate:history - Show all executed migrations'',
        ''  - db:migrate:undo [destination] - Undo last executed migration or all down to destination if specified'',
        ''  - db:migrate:undo:all - Undo all executed migrations'',
        ''  - db:reset - Undo all executed migrations and then execute them again'',
        ''  - migration:generate <migration name> - Create a new empty migration file'']"

text \<open>
  \<open>runTask\<close>. The \<open>switch\<close> compares the task with each label by strict equality, so
  \<open>undefined\<close> and every other string reach \<open>default\<close>; there \<open>if (task)\<close> is the
  truthiness of the task, false for \<open>undefined\<close> and for the empty string. In the same
  way \<open>!migrationName\<close> holds for \<open>undefined\<close> and for the empty string.
\<close>

definition runTask :: "'e umzug \<Rightarrow> env \<Rightarrow> string option \<Rightarrow> options \<Rightarrow> 'e world \<Rightarrow> unit completion \<times> 'e world" where
  "runTask umzug sys task opts w =
     (if task = Some ''db:migrate:check'' then checkMigrations umzug w
      else if task = Some ''db:migrate'' then migrate umzug (migrateTo opts) w
      else if task = Some ''db:migrate:status'' then printPending umzug w
      else if task = Some ''db:migrate:history'' then printExecuted umzug w
      else if task = Some ''db:migrate:undo'' then undo umzug (map_option Target (undoTo opts)) w
      else if task = Some ''db:migrate:undo:all'' then undo umzug (Some Zero) w
      else if task = Some ''db:reset'' then
        (case undo umzug (Some Zero) w of
           (Return u, w') \<Rightarrow> migrate umzug None w'
         | (Throw error, w') \<Rightarrow> (Throw error, w')
         | (Exit c, w') \<Rightarrow> (Exit c, w'))
      else if task = Some ''migration:generate'' then
        (case migrationName opts of
           None \<Rightarrow> (Throw (Error ''Migration name should be specified.''), w)
         | Some name \<Rightarrow>
             (if name = [] then (Throw (Error ''Migration name should be specified.''), w)
              else generate sys name w))
      else
        (if task \<noteq> None \<and> task \<noteq> Some []
         then (Throw (Error ''Task not found.''), w)
         else (Return (), log usage w)))"

subsection \<open>The script\<close>

text \<open>\<open>xs[i]\<close> on a JavaScript array: \<open>undefined\<close> out of range.\<close>

definition at :: "'a list \<Rightarrow> nat \<Rightarrow> 'a option" where
  "at xs i = (if i < length xs then Some (xs ! i) else None)"

definition task_of :: "string list \<Rightarrow> string option" where
  "task_of argv = at argv 2"

definition options_of :: "string list \<Rightarrow> options" where
  "options_of argv =
     (if task_of argv = Some ''db:migrate''
      then \<lparr>migrateTo = at argv 3, undoTo = None, migrationName = None\<rparr>
      else if task_of argv = Some ''db:migrate:undo''
      then \<lparr>migrateTo = None, undoTo = at argv 3, migrationName = None\<rparr>
      else if task_of argv = Some ''migration:generate''
      then \<lparr>migrateTo = None, undoTo = None, migrationName = at argv 3\<rparr>
      else \<lparr>migrateTo = None, undoTo = None, migrationName = None\<rparr>)"

text \<open>
  The whole run, for the array \<open>process.argv\<close>: the exit code and the final world.
  \<open>process.exit()\<close> without a code exits with 0.
\<close>

definition main :: "'e umzug \<Rightarrow> env \<Rightarrow> string list \<Rightarrow> 'e world \<Rightarrow> nat \<times> 'e world" where
  "main umzug sys argv w =
     (case runTask umzug sys (task_of argv) (options_of argv) (constructor w) of
        (Return u, w') \<Rightarrow> (0, w')
      | (Throw error, w') \<Rightarrow> (1, log (''Error: '' @ message error) w')
      | (Exit c, w') \<Rightarrow> (c, w'))"

text \<open>
  The file names that a listing prints: those of the migrations before the first one
  without a file name, all of them when each has one.
\<close>

fun listed :: "migration list \<Rightarrow> string list" where
  "listed [] = []"
| "listed (migration # rest) =
     (case file_or_migration migration of None \<Rightarrow> [] | Some s \<Rightarrow> s # listed rest)"

text \<open>The labels of the \<open>switch\<close> in \<open>runTask\<close>.\<close>

definition tasks :: "string list" where
  "tasks =
     [''db:migrate:check'', ''db:migrate'', ''db:migrate:status'', ''db:migrate:history'',
      ''db:migrate:undo'', ''db:migrate:undo:all'', ''db:reset'', ''migration:generate'']"

subsection \<open>Example inputs\<close>

text \<open>
  Concrete engines, a platform and a starting world, on which the theorems below are
  instantiated: an engine with nothing to do, an engine whose promises are all rejected,
  and an engine with two units.
\<close>

definition idle_engine :: "unit umzug" where
  "idle_engine c e = ([], Inr [], e)"

definition failing_engine :: "unit umzug" where
  "failing_engine c e = ([], Inl (Error ''boom''), e)"

definition busy_engine :: "unit umzug" where
  "busy_engine c e =
     (case c of
        Pending \<Rightarrow> ([], Inr [Migration ''20230101120000-create-users.js'', Migration ''a.js.old.js''], e)
      | Up d \<Rightarrow>
          ([(Migrating, ''20230101120000-create-users.js''), (Migrated, ''20230101120000-create-users.js'')],
           Inr [Migration ''20230101120000-create-users.js''], e)
      | Down d \<Rightarrow>
          ([(Reverting, ''20230101120000-create-users.js''), (Reverted, ''20230101120000-create-users.js'')],
           Inr [Migration ''20230101120000-create-users.js''], e)
      | Executed \<Rightarrow> ([], Inr [Name ''20230101120000-create-users.js''], e))"

text \<open>
  An engine that reverts nothing and rejects \<open>up\<close>; an engine whose lists hold an object
  with an empty \<open>file\<close> after one with a file.
\<close>

definition up_failing_engine :: "unit umzug" where
  "up_failing_engine c e =
     (case c of
        Pending \<Rightarrow> ([], Inr [], e)
      | Up d \<Rightarrow> ([], Inl (Error ''boom''), e)
      | Down d \<Rightarrow> ([], Inr [], e)
      | Executed \<Rightarrow> ([], Inr [], e))"

definition nameless_engine :: "unit umzug" where
  "nameless_engine c e = ([], Inr [Migration ''a.js'', Migration []], e)"

definition example_env :: env where
  "example_env =
     \<lparr>cwd = ''/app'',
      now = \<lparr>getUTCFullYear = 2023, getUTCMonth = 0, getUTCDate = 2,
             getUTCHours = 3, getUTCMinutes = 4, getUTCSeconds = 5\<rparr>,
      resolve = join ''/'',
      write_error = Map.empty\<rparr>"

definition example_world :: "unit world" where
  "example_world =
     \<lparr>engine = (), listeners = [], stdout = [], calls = [],
      files = [''/app/migrations/migration.sample.js'' \<mapsto> ''module.exports = {};''],
      streams = []\<rparr>"

text \<open>A platform on which no path can be opened for writing, and a world without files.\<close>

definition readonly_env :: env where
  "readonly_env = example_env\<lparr>write_error := (\<lambda>p. Some ''EACCES: permission denied'')\<rparr>"

definition bare_world :: "unit world" where
  "bare_world = example_world\<lparr>files := Map.empty\<rparr>"

section \<open>Auxiliary facts\<close>

lemma log_fields [simp]:
  "stdout (log l w) = stdout w @ [l]" "calls (log l w) = calls w" "engine (log l w) = engine w"
  "listeners (log l w) = listeners w" "files (log l w) = files w" "streams (log l w) = streams w"
  by (simp_all add: log_def)

lemma on_fields [simp]:
  "listeners (on ev f w) = listeners w @ [(ev, f)]" "stdout (on ev f w) = stdout w"
  "calls (on ev f w) = calls w" "engine (on ev f w) = engine w"
  "files (on ev f w) = files w" "streams (on ev f w) = streams w"
  by (simp_all add: on_def)

lemma constructor_fields [simp]:
  "stdout (constructor w) = stdout w" "calls (constructor w) = calls w"
  "engine (constructor w) = engine w" "files (constructor w) = files w"
  "streams (constructor w) = streams w"
  by (simp_all add: constructor_def)

lemma fold_emit_fields [simp]:
  "calls (fold emit evs w) = calls w" "engine (fold emit evs w) = engine w"
  "listeners (fold emit evs w) = listeners w" "files (fold emit evs w) = files w"
  "streams (fold emit evs w) = streams w"
  by (induction evs arbitrary: w) (simp_all add: emit_def)

lemma emitted_append: "emitted (xs @ ys) e = emitted xs e @ emitted ys e"
  by (simp add: emitted_def)

lemma fold_emit_stdout:
  "stdout (fold emit evs w) = stdout w @ concat (map (emitted (listeners w)) evs)"
  by (induction evs arbitrary: w) (simp_all add: emit_def)

lemma await_fields [simp]:
  "calls (snd (await umzug c w)) = calls w @ [c]"
  "listeners (snd (await umzug c w)) = listeners w"
  "files (snd (await umzug c w)) = files w"
  "streams (snd (await umzug c w)) = streams w"
  by (simp_all add: await_def split: prod.splits)

lemma await_response:
  "umzug c (engine w) = (evs, r, e') \<Longrightarrow>
   await umzug c w =
     (case r of Inl error \<Rightarrow> Throw error | Inr migrations \<Rightarrow> Return migrations,
      fold emit evs (w\<lparr>engine := e', calls := calls w @ [c]\<rparr>))"
  by (simp add: await_def)

lemma undo_calls: "calls (snd (undo umzug d w)) = calls w @ [Down d]"
proof (cases d)
  case None
  show ?thesis
    using await_fields(1) [of umzug "Down None" w]
    by (cases "await umzug (Down None) w") (simp add: undo_def None split: completion.splits)
next
  case (Some x)
  show ?thesis
    using await_fields(1) [of umzug "Down (Some x)" w]
    by (cases "await umzug (Down (Some x)) w") (simp add: undo_def Some split: completion.splits)
qed

lemma checkMigrations_calls: "calls (snd (checkMigrations umzug w)) = calls w @ [Pending]"
  using await_fields(1) [of umzug Pending w]
  by (cases "await umzug Pending w") (simp add: checkMigrations_def split: completion.splits)

lemma checkMigrations_returned:
  assumes "umzug Pending (engine w) = (evs, Inr migrations, e')"
  shows "fst (checkMigrations umzug w) = Exit (if migrations = [] then 0 else 1)"
    and "engine (snd (checkMigrations umzug w)) = e'"
  using assms by (simp_all add: checkMigrations_def await_response)

lemma main_fst:
  "fst (main umzug sys argv w) =
     (case fst (runTask umzug sys (task_of argv) (options_of argv) (constructor w)) of
        Return u \<Rightarrow> 0 | Throw error \<Rightarrow> 1 | Exit c \<Rightarrow> c)"
  by (simp add: main_def split: prod.splits completion.splits)

lemma main_calls:
  "calls (snd (main umzug sys argv w)) =
   calls (snd (runTask umzug sys (task_of argv) (options_of argv) (constructor w)))"
  by (simp add: main_def split: prod.splits completion.splits)

lemma main_engine:
  "engine (snd (main umzug sys argv w)) =
   engine (snd (runTask umzug sys (task_of argv) (options_of argv) (constructor w)))"
  by (simp add: main_def split: prod.splits completion.splits)

lemma main_stdout:
  "stdout (snd (main umzug sys argv w)) =
   stdout (snd (runTask umzug sys (task_of argv) (options_of argv) (constructor w))) @
     (case fst (runTask umzug sys (task_of argv) (options_of argv) (constructor w)) of
        Throw error \<Rightarrow> [''Error: '' @ message error] | _ \<Rightarrow> [])"
  by (simp add: main_def split: prod.splits completion.splits)

lemma task_of_verb: "task_of (node # script # verb # rest) = Some verb"
  by (simp add: task_of_def at_def)

lemma at_3:
  "at (node # script # verb # rest) 3 = (case rest of [] \<Rightarrow> None | x # xs \<Rightarrow> Some x)"
  by (simp add: at_def split: list.splits)

lemma migrate_calls: "calls (snd (migrate umzug d w)) = calls w @ [Up (map_option Target d)]"
proof (cases d)
  case None
  show ?thesis
    using await_fields(1) [of umzug "Up None" w]
    by (cases "await umzug (Up None) w") (simp add: migrate_def None split: completion.splits)
next
  case (Some x)
  show ?thesis
    using await_fields(1) [of umzug "Up (Some (Target x))" w]
    by (cases "await umzug (Up (Some (Target x))) w") (simp add: migrate_def Some split: completion.splits)
qed

lemma migrate_response:
  assumes "umzug (Up (map_option Target d)) (engine w) = (evs, r, e')"
  shows "migrate umzug d w =
    (case r of
       Inl error \<Rightarrow> (Throw error, fold emit evs (w\<lparr>engine := e', calls := calls w @ [Up (map_option Target d)]\<rparr>))
     | Inr migrations \<Rightarrow>
         (Return (),
          log (if length migrations > 0
               then ''Executed '' @ decimal (length migrations) @ '' migrations.''
               else ''No migrations were executed.'')
            (fold emit evs (w\<lparr>engine := e', calls := calls w @ [Up (map_option Target d)]\<rparr>))))"
  using assms by (cases d; cases r) (simp_all add: migrate_def await_response)

lemma undo_response:
  assumes "umzug (Down d) (engine w) = (evs, r, e')"
  shows "undo umzug d w =
    (case r of
       Inl error \<Rightarrow> (Throw error, fold emit evs (w\<lparr>engine := e', calls := calls w @ [Down d]\<rparr>))
     | Inr migrations \<Rightarrow>
         (Return (),
          log (if length migrations > 0
               then ''Reverted '' @ decimal (length migrations) @ '' migrations.''
               else ''No migrations were reverted.'')
            (fold emit evs (w\<lparr>engine := e', calls := calls w @ [Down d]\<rparr>))))"
  using assms by (cases d; cases r) (simp_all add: undo_def await_response)

lemma runTask_migrate:
  "runTask umzug sys (task_of (node # script # ''db:migrate'' # rest))
     (options_of (node # script # ''db:migrate'' # rest)) w =
   migrate umzug (case rest of [] \<Rightarrow> None | x # xs \<Rightarrow> Some x) w"
  by (simp add: runTask_def options_of_def task_of_verb at_3)

lemma runTask_reset:
  "runTask umzug sys (task_of (node # script # ''db:reset'' # rest))
     (options_of (node # script # ''db:reset'' # rest)) w =
   (case undo umzug (Some Zero) w of
      (Return u, w') \<Rightarrow> migrate umzug None w'
    | (Throw error, w') \<Rightarrow> (Throw error, w')
    | (Exit c, w') \<Rightarrow> (Exit c, w'))"
  by (simp add: runTask_def options_of_def task_of_verb)

lemma runTask_default:
  "task \<notin> Some ` set tasks \<Longrightarrow>
   runTask umzug sys task opts w =
     (if task \<noteq> None \<and> task \<noteq> Some []
      then (Throw (Error ''Task not found.''), w)
      else (Return (), log usage w))"
  by (simp add: runTask_def tasks_def image_iff)

lemma main_Throw:
  "runTask umzug sys (task_of argv) (options_of argv) (constructor w) = (Throw error, w') \<Longrightarrow>
   main umzug sys argv w = (1, log (''Error: '' @ message error) w')"
  by (simp add: main_def)

lemma rejected:
  assumes "umzug c (engine w) = (evs, Inl error, e')"
  shows "c = Pending \<Longrightarrow> checkMigrations umzug w =
      (Throw error, fold emit evs (w\<lparr>engine := e', calls := calls w @ [c]\<rparr>))"
    and "c = Pending \<Longrightarrow> printPending umzug w =
      (Throw error, fold emit evs (w\<lparr>engine := e', calls := calls w @ [c]\<rparr>))"
    and "c = Executed \<Longrightarrow> printExecuted umzug w =
      (Throw error, fold emit evs (w\<lparr>engine := e', calls := calls w @ [c]\<rparr>))"
    and "c = Up (map_option Target d) \<Longrightarrow> migrate umzug d w =
      (Throw error, fold emit evs (w\<lparr>engine := e', calls := calls w @ [c]\<rparr>))"
    and "c = Down t \<Longrightarrow> undo umzug t w =
      (Throw error, fold emit evs (w\<lparr>engine := e', calls := calls w @ [c]\<rparr>))"
  using assms
  by (simp_all add: checkMigrations_def printPending_def printExecuted_def await_response
      migrate_response undo_response)

lemma generate_without_name:
  "runTask umzug sys (task_of (node # script # ''migration:generate'' # rest))
     (options_of (node # script # ''migration:generate'' # rest)) w =
   (case rest of
      [] \<Rightarrow> (Throw (Error ''Migration name should be specified.''), w)
    | name # xs \<Rightarrow>
        if name = [] then (Throw (Error ''Migration name should be specified.''), w)
        else generate sys name w)"
  by (simp add: runTask_def options_of_def task_of_verb at_3 split: list.splits)

lemma replace_first_occurrence:
  "take (length pat) (drop i s) = pat \<Longrightarrow>
   (\<forall>j<i. take (length pat) (drop j s) \<noteq> pat) \<Longrightarrow>
   replace pat rep s = take i s @ rep @ drop (i + length pat) s"
proof (induction s arbitrary: i)
  case Nil
  then show ?case by simp
next
  case (Cons c cs)
  show ?case
  proof (cases i)
    case 0
    with Cons.prems show ?thesis by simp
  next
    case (Suc k)
    with Cons.prems have "take (length pat) (c # cs) \<noteq> pat"
      by (metis drop0 zero_less_Suc)
    moreover from Cons.prems Suc have "\<forall>j<k. take (length pat) (drop j cs) \<noteq> pat"
      by (metis Suc_less_eq drop_Suc_Cons)
    moreover from Cons.prems Suc have "take (length pat) (drop k cs) = pat"
      by simp
    ultimately show ?thesis
      using Cons.IH [of k] Suc by simp
  qed
qed

lemma replace_no_occurrence:
  "(\<forall>j\<le>length s. take (length pat) (drop j s) \<noteq> pat) \<Longrightarrow> replace pat rep s = s"
proof (induction s)
  case Nil
  then show ?case by auto
next
  case (Cons c cs)
  from Cons.prems have "take (length pat) (c # cs) \<noteq> pat"
    by (metis drop0 le0)
  moreover from Cons.prems have "\<forall>j\<le>length cs. take (length pat) (drop j cs) \<noteq> pat"
    by (metis Suc_le_mono drop_Suc_Cons length_Cons)
  ultimately show ?case
    using Cons.IH by simp
qed


lemma forEach_printMigration_listed:
  "forEach_printMigration k ms w =
     (if length (listed ms) = length ms then Return () else Throw replace_is_not_a_function,
      w\<lparr>stdout := stdout w @
         map (\<lambda>(i, n). ''  '' @ decimal i @ '') '' @ replace ''.js'' [] n)
           (enumerate (k + 1) (listed ms))\<rparr>)"
proof (induction ms arbitrary: k w)
  case Nil
  then show ?case by simp
next
  case (Cons m ms)
  show ?case
  proof (cases "file_or_migration m")
    case None
    then show ?thesis
      by (simp add: printMigration_def)
  next
    case (Some s)
    then show ?thesis
      using Cons.IH [of "Suc k"]
      by (simp add: printMigration_def log_def)
  qed
qed

lemma listing_returned:
  assumes "umzug c (engine w) = (evs, Inr ms, e')" "ms \<noteq> []"
  shows "c = Pending \<Longrightarrow> printPending umzug w =
      (if length (listed ms) = length ms then Return () else Throw replace_is_not_a_function,
       (fold emit evs (w\<lparr>engine := e', calls := calls w @ [c]\<rparr>))
       \<lparr>stdout := stdout w @ concat (map (emitted (listeners w)) evs) @
          ''Pending migrations:'' #
          map (\<lambda>(i, n). ''  '' @ decimal i @ '') '' @ replace ''.js'' [] n) (enumerate 1 (listed ms))\<rparr>)"
    and "c = Executed \<Longrightarrow> printExecuted umzug w =
      (if length (listed ms) = length ms then Return () else Throw replace_is_not_a_function,
       (fold emit evs (w\<lparr>engine := e', calls := calls w @ [c]\<rparr>))
       \<lparr>stdout := stdout w @ concat (map (emitted (listeners w)) evs) @
          ''Executed migrations:'' #
          map (\<lambda>(i, n). ''  '' @ decimal i @ '') '' @ replace ''.js'' [] n) (enumerate 1 (listed ms))\<rparr>)"
  using assms
  by (simp_all add: printPending_def printExecuted_def await_response printMigrations_def
      forEach_printMigration_listed log_def fold_emit_stdout)

lemma decimal_1: "n < 10 \<Longrightarrow> decimal n = [digit n]"
  by (simp add: decimal.simps)

lemma decimal_2:
  "10 \<le> n \<Longrightarrow> n < 100 \<Longrightarrow> decimal n = [digit (n div 10), digit n]"
  by (subst decimal.simps) (simp add: decimal_1)

lemma decimal_3:
  "100 \<le> n \<Longrightarrow> n < 1000 \<Longrightarrow> decimal n = [digit (n div 100), digit (n div 10), digit n]"
  by (subst decimal.simps) (simp add: decimal_2 div_mult2_eq [symmetric])

lemma decimal_4:
  "1000 \<le> n \<Longrightarrow> n < 10000 \<Longrightarrow>
   decimal n = [digit (n div 1000), digit (n div 100), digit (n div 10), digit n]"
  by (subst decimal.simps) (simp add: decimal_3 div_mult2_eq [symmetric])

lemma digit_0: "digit 0 = CHR ''0''"
  by (simp add: digit_def)

lemma format_two_digits: "n < 100 \<Longrightarrow> format (int n) = [digit (n div 10), digit n]"
  by (cases "n < 10") (simp_all add: format_def toString_def padStart_def decimal_1
      decimal_2 digit_0)

lemma format_two_digits_Suc:
  "n < 99 \<Longrightarrow> format (int n + 1) = [digit ((n + 1) div 10), digit (n + 1)]"
  using format_two_digits [of "n + 1"] by (simp add: add.commute)

lemma digit_in_digits: "digit n \<in> set ''0123456789''"
proof -
  have "n mod 10 = 0 \<or> n mod 10 = 1 \<or> n mod 10 = 2 \<or> n mod 10 = 3 \<or> n mod 10 = 4
      \<or> n mod 10 = 5 \<or> n mod 10 = 6 \<or> n mod 10 = 7 \<or> n mod 10 = 8 \<or> n mod 10 = 9"
    by presburger
  then show ?thesis
    unfolding digit_def by (elim disjE) simp_all
qed

lemma timestamp_digits:
  assumes "1000 \<le> getUTCFullYear d" "getUTCFullYear d \<le> 9999"
    and "getUTCMonth d \<le> 11" "getUTCDate d \<le> 31" "getUTCHours d \<le> 23"
    and "getUTCMinutes d \<le> 59" "getUTCSeconds d \<le> 59"
  shows "timestamp d =
    [digit (nat (getUTCFullYear d) div 1000), digit (nat (getUTCFullYear d) div 100),
     digit (nat (getUTCFullYear d) div 10), digit (nat (getUTCFullYear d)),
     digit ((getUTCMonth d + 1) div 10), digit (getUTCMonth d + 1),
     digit (getUTCDate d div 10), digit (getUTCDate d),
     digit (getUTCHours d div 10), digit (getUTCHours d),
     digit (getUTCMinutes d div 10), digit (getUTCMinutes d),
     digit (getUTCSeconds d div 10), digit (getUTCSeconds d)]"
proof -
  from assms(1,2) have "toString (getUTCFullYear d) =
      [digit (nat (getUTCFullYear d) div 1000), digit (nat (getUTCFullYear d) div 100),
       digit (nat (getUTCFullYear d) div 10), digit (nat (getUTCFullYear d))]"
    by (simp add: toString_def decimal_4)
  moreover from assms(3) have "format (int (getUTCMonth d) + 1) =
      [digit ((getUTCMonth d + 1) div 10), digit (getUTCMonth d + 1)]"
    by (simp add: format_two_digits_Suc)
  moreover from assms(4-7) have
    "format (int (getUTCDate d)) = [digit (getUTCDate d div 10), digit (getUTCDate d)]"
    "format (int (getUTCHours d)) = [digit (getUTCHours d div 10), digit (getUTCHours d)]"
    "format (int (getUTCMinutes d)) = [digit (getUTCMinutes d div 10), digit (getUTCMinutes d)]"
    "format (int (getUTCSeconds d)) = [digit (getUTCSeconds d div 10), digit (getUTCSeconds d)]"
    by (simp_all add: format_two_digits)
  ultimately show ?thesis
    by (simp add: timestamp_def)
qed

lemma generate_copies:
  assumes "files w (resolve sys [cwd sys, ''migrations'', ''migration.sample.js'']) = Some template"
    and "write_error sys (resolve sys [cwd sys, ''migrations'', timestamp (now sys) @ ''-'' @ name @ ''.js'']) = None"
    and "resolve sys [cwd sys, ''migrations'', timestamp (now sys) @ ''-'' @ name @ ''.js''] \<noteq>
         resolve sys [cwd sys, ''migrations'', ''migration.sample.js'']"
  shows "generate sys name w =
    (Return (),
     w\<lparr>streams := streams w @
          [CreateReadStream (resolve sys [cwd sys, ''migrations'', ''migration.sample.js'']),
           CreateWriteStream (resolve sys [cwd sys, ''migrations'', timestamp (now sys) @ ''-'' @ name @ ''.js''])],
        files := (files w)(resolve sys [cwd sys, ''migrations'', timestamp (now sys) @ ''-'' @ name @ ''.js''] \<mapsto> template),
        stdout := stdout w @
          [''Migration file '' @ [CHR 0x27] @ (timestamp (now sys) @ ''-'' @ name @ ''.js'') @ [CHR 0x27] @
           '' has been created.'']\<rparr>)"
  using assms
  by (simp add: generate_def Let_def pipe_def createWriteStream_def createReadStream_def log_def)

lemma main_reads_argv_2_3:
  "at argv 2 = at argv' 2 \<Longrightarrow> at argv 3 = at argv' 3 \<Longrightarrow>
   main umzug sys argv w = main umzug sys argv' w"
  by (simp add: main_def task_of_def options_of_def)

lemma options_of_ignored:
  "at argv 2 \<noteq> Some ''db:migrate'' \<Longrightarrow> at argv 2 \<noteq> Some ''db:migrate:undo'' \<Longrightarrow>
   at argv 2 \<noteq> Some ''migration:generate'' \<Longrightarrow>
   options_of argv = \<lparr>migrateTo = None, undoTo = None, migrationName = None\<rparr>"
  by (simp add: options_of_def task_of_def)

lemma printMigration_listeners:
  "listeners (snd (printMigration m index w)) = listeners w"
  by (simp add: printMigration_def Let_def split: option.splits)

lemma forEach_printMigration_listeners:
  "listeners (snd (forEach_printMigration k ms w)) = listeners w"
proof (induction ms arbitrary: k w)
  case Nil
  then show ?case by simp
next
  case (Cons m ms)
  show ?case
    using printMigration_listeners [of m "Some (k + 1)" w] Cons.IH
    by (cases "printMigration m (Some (k + 1)) w") (simp split: completion.splits)
qed

lemma generate_listeners:
  "listeners (snd (generate sys n v)) = listeners v"
  by (simp add: generate_def Let_def pipe_def createWriteStream_def createReadStream_def
      split: option.splits)

lemma runTask_listeners:
  "listeners (snd (runTask umzug sys task opts w)) = listeners w"
proof -
  have a: "listeners (snd (checkMigrations umzug v)) = listeners v" for v
    using await_fields(2) [of umzug Pending v]
    by (cases "await umzug Pending v") (simp add: checkMigrations_def split: completion.splits)
  have b: "listeners (snd (migrate umzug d v)) = listeners v" for d v
  proof (cases d)
    case None
    show ?thesis
      using await_fields(2) [of umzug "Up None" v]
      by (cases "await umzug (Up None) v") (simp add: migrate_def None split: completion.splits)
  next
    case (Some x)
    show ?thesis
      using await_fields(2) [of umzug "Up (Some (Target x))" v]
      by (cases "await umzug (Up (Some (Target x))) v")
        (simp add: migrate_def Some split: completion.splits)
  qed
  have c: "listeners (snd (undo umzug d v)) = listeners v" for d v
  proof (cases d)
    case None
    show ?thesis
      using await_fields(2) [of umzug "Down None" v]
      by (cases "await umzug (Down None) v") (simp add: undo_def None split: completion.splits)
  next
    case (Some x)
    show ?thesis
      using await_fields(2) [of umzug "Down (Some x)" v]
      by (cases "await umzug (Down (Some x)) v")
        (simp add: undo_def Some split: completion.splits)
  qed
  have d: "listeners (snd (printPending umzug v)) = listeners v" for v
    using await_fields(2) [of umzug Pending v]
    by (cases "await umzug Pending v")
      (simp add: printPending_def printMigrations_def forEach_printMigration_listeners
        split: completion.splits)
  have e: "listeners (snd (printExecuted umzug v)) = listeners v" for v
    using await_fields(2) [of umzug Executed v]
    by (cases "await umzug Executed v")
      (simp add: printExecuted_def printMigrations_def forEach_printMigration_listeners
        split: completion.splits)
  have g: "listeners (snd (case undo umzug (Some Zero) w of
        (Return u, w') \<Rightarrow> migrate umzug None w'
      | (Throw error, w') \<Rightarrow> (Throw error, w')
      | (Exit c, w') \<Rightarrow> (Exit c, w'))) = listeners w"
    using c [of "Some Zero" w] b [of None]
    by (cases "undo umzug (Some Zero) w") (simp split: completion.splits)
  show ?thesis
    unfolding runTask_def
    by (simp add: a b c d e generate_listeners g split: option.splits)
qed

lemma main_listeners:
  "listeners (snd (main umzug sys argv w)) = listeners (constructor w)"
  using runTask_listeners [of umzug sys "task_of argv" "options_of argv" "constructor w"]
  by (cases "runTask umzug sys (task_of argv) (options_of argv) (constructor w)")
    (simp add: main_def split: completion.splits)

lemma process_argv_positions:
  "(at argv 2 = at argv' 2 \<and> at argv 3 = at argv' 3 \<longrightarrow>
      main umzug sys argv w = main umzug sys argv' w)
   \<and> (at argv 2 = at argv' 2 \<and> at argv 2 \<noteq> Some ''db:migrate''
      \<and> at argv 2 \<noteq> Some ''db:migrate:undo'' \<and> at argv 2 \<noteq> Some ''migration:generate'' \<longrightarrow>
      main umzug sys argv w = main umzug sys argv' w)
   \<and> (at argv 2 = Some ''db:migrate'' \<longrightarrow>
      calls (snd (main umzug sys argv w)) = calls w @ [Up (map_option Target (at argv 3))])
   \<and> (at argv 2 = Some ''db:migrate:undo'' \<longrightarrow>
      calls (snd (main umzug sys argv w)) = calls w @ [Down (map_option Target (at argv 3))])
   \<and> (at argv 2 = Some ''migration:generate'' \<and> at argv 3 = Some name \<and> name \<noteq> [] \<longrightarrow>
      streams (snd (main umzug sys argv w)) =
        streams w @
          [CreateReadStream (resolve sys [cwd sys, ''migrations'', ''migration.sample.js'']),
           CreateWriteStream (resolve sys [cwd sys, ''migrations'', timestamp (now sys) @ ''-'' @ name @ ''.js''])])"
proof (intro conjI impI)
  assume "at argv 2 = at argv' 2 \<and> at argv 3 = at argv' 3"
  then show "main umzug sys argv w = main umzug sys argv' w"
    by (intro main_reads_argv_2_3) simp_all
next
  assume a: "at argv 2 = at argv' 2 \<and> at argv 2 \<noteq> Some ''db:migrate''
      \<and> at argv 2 \<noteq> Some ''db:migrate:undo'' \<and> at argv 2 \<noteq> Some ''migration:generate''"
  then have "options_of argv = \<lparr>migrateTo = None, undoTo = None, migrationName = None\<rparr>"
    by (intro options_of_ignored) (elim conjE, assumption)+
  moreover from a have "at argv' 2 \<noteq> Some ''db:migrate''" "at argv' 2 \<noteq> Some ''db:migrate:undo''"
    "at argv' 2 \<noteq> Some ''migration:generate''"
    by (elim conjE, simp)+
  then have "options_of argv' = \<lparr>migrateTo = None, undoTo = None, migrationName = None\<rparr>"
    by (rule options_of_ignored)
  moreover from a have "task_of argv = task_of argv'"
    by (simp add: task_of_def)
  ultimately show "main umzug sys argv w = main umzug sys argv' w"
    by (simp add: main_def)
next
  assume "at argv 2 = Some ''db:migrate''"
  then show "calls (snd (main umzug sys argv w)) = calls w @ [Up (map_option Target (at argv 3))]"
    by (simp add: main_calls task_of_def options_of_def runTask_def migrate_calls)
next
  assume "at argv 2 = Some ''db:migrate:undo''"
  then show "calls (snd (main umzug sys argv w)) = calls w @ [Down (map_option Target (at argv 3))]"
    by (simp add: main_calls task_of_def options_of_def runTask_def undo_calls)
next
  assume "at argv 2 = Some ''migration:generate'' \<and> at argv 3 = Some name \<and> name \<noteq> []"
  then have "runTask umzug sys (task_of argv) (options_of argv) (constructor w) =
      generate sys name (constructor w)"
    by (simp add: task_of_def options_of_def runTask_def)
  then show "streams (snd (main umzug sys argv w)) =
        streams w @
          [CreateReadStream (resolve sys [cwd sys, ''migrations'', ''migration.sample.js'']),
           CreateWriteStream (resolve sys [cwd sys, ''migrations'', timestamp (now sys) @ ''-'' @ name @ ''.js''])]"
    by (simp add: main_def generate_def Let_def pipe_def createWriteStream_def createReadStream_def
        split: option.splits)
qed

lemma at_shift: "at (x # xs) 2 = at xs 1" "at (x # xs) 3 = at xs 2"
  by (simp_all add: at_def)

lemma listed_Name: "listed (map Name ss) = ss"
  by (induction ss) (simp_all add: file_or_migration_def)

lemma listed_Migration: "[] \<notin> set fs \<Longrightarrow> listed (map Migration fs) = fs"
  by (induction fs) (auto simp: file_or_migration_def)

lemma status_stdout:
  assumes "umzug Pending (engine w) = (evs, Inr migrations, e')" "migrations \<noteq> []"
  shows "stdout (snd (main umzug sys (node # script # ''db:migrate:status'' # rest) w)) =
        stdout w @ concat (map (emitted (listeners (constructor w))) evs) @
        ''Pending migrations:'' #
        map (\<lambda>(i, n). ''  '' @ decimal i @ '') '' @ replace ''.js'' [] n)
          (enumerate 1 (listed migrations)) @
        (if length (listed migrations) = length migrations then []
         else [''Error: '' @ message replace_is_not_a_function])"
proof -
  from assms have r: "umzug Pending (engine (constructor w)) = (evs, Inr migrations, e')"
    "migrations \<noteq> []"
    by simp_all
  show ?thesis
    using listing_returned(1) [where umzug = umzug and w = "constructor w", OF r]
    by (simp add: main_stdout task_of_verb runTask_def)
qed

lemma history_stdout:
  assumes "umzug Executed (engine w) = (evs, Inr migrations, e')" "migrations \<noteq> []"
  shows "stdout (snd (main umzug sys (node # script # ''db:migrate:history'' # rest) w)) =
        stdout w @ concat (map (emitted (listeners (constructor w))) evs) @
        ''Executed migrations:'' #
        map (\<lambda>(i, n). ''  '' @ decimal i @ '') '' @ replace ''.js'' [] n)
          (enumerate 1 (listed migrations)) @
        (if length (listed migrations) = length migrations then []
         else [''Error: '' @ message replace_is_not_a_function])"
proof -
  from assms have r: "umzug Executed (engine (constructor w)) = (evs, Inr migrations, e')"
    "migrations \<noteq> []"
    by simp_all
  show ?thesis
    using listing_returned(2) [where umzug = umzug and w = "constructor w", OF r]
    by (simp add: main_stdout task_of_verb runTask_def)
qed

lemma runTask_undo:
  "runTask umzug sys (task_of (node # script # ''db:migrate:undo'' # rest))
     (options_of (node # script # ''db:migrate:undo'' # rest)) w =
   undo umzug (case rest of [] \<Rightarrow> None | x # xs \<Rightarrow> Some (Target x)) w"
  by (simp add: runTask_def options_of_def task_of_verb at_3 split: list.splits)

lemma rejected_call:
  assumes "(verb, c) \<in> set
        [(''db:migrate:check'', Pending),
         (''db:migrate'', Up (case rest of [] \<Rightarrow> None | x # xs \<Rightarrow> Some (Target x))),
         (''db:migrate:status'', Pending), (''db:migrate:history'', Executed),
         (''db:migrate:undo'', Down (case rest of [] \<Rightarrow> None | x # xs \<Rightarrow> Some (Target x))),
         (''db:migrate:undo:all'', Down (Some Zero)),
         (''db:reset'', Down (Some Zero))]"
    and "umzug c (engine w) = (evs, Inl error, e')"
  shows "runTask umzug sys (task_of (node # script # verb # rest))
      (options_of (node # script # verb # rest)) w =
      (Throw error, fold emit evs (w\<lparr>engine := e', calls := calls w @ [c]\<rparr>))"
proof -
  have t: "(case rest of [] \<Rightarrow> None | x # xs \<Rightarrow> Some (Target x)) =
      map_option Target (case rest of [] \<Rightarrow> None | x # xs \<Rightarrow> Some x)"
    by (simp split: list.splits)
  from assms(1) have
    "verb = ''db:migrate:check'' \<and> c = Pending
     \<or> verb = ''db:migrate'' \<and> c = Up (case rest of [] \<Rightarrow> None | x # xs \<Rightarrow> Some (Target x))
     \<or> verb = ''db:migrate:status'' \<and> c = Pending
     \<or> verb = ''db:migrate:history'' \<and> c = Executed
     \<or> verb = ''db:migrate:undo'' \<and> c = Down (case rest of [] \<Rightarrow> None | x # xs \<Rightarrow> Some (Target x))
     \<or> verb = ''db:migrate:undo:all'' \<and> c = Down (Some Zero)
     \<or> verb = ''db:reset'' \<and> c = Down (Some Zero)"
    by simp
  then show ?thesis
  proof (elim disjE conjE)
    assume "verb = ''db:migrate:check''" "c = Pending"
    then show ?thesis
      using rejected(1) [where umzug = umzug and w = w, OF assms(2)]
      by (simp add: task_of_verb runTask_def)
  next
    assume v: "verb = ''db:migrate''"
      "c = Up (case rest of [] \<Rightarrow> None | x # xs \<Rightarrow> Some (Target x))"
    from v(2) have "c = Up (map_option Target (case rest of [] \<Rightarrow> None | x # xs \<Rightarrow> Some x))"
      by (simp only: t)
    from rejected(4) [where umzug = umzug and w = w, OF assms(2) this] show ?thesis
      by (simp only: v(1) runTask_migrate)
  next
    assume "verb = ''db:migrate:status''" "c = Pending"
    then show ?thesis
      using rejected(2) [where umzug = umzug and w = w, OF assms(2)]
      by (simp add: task_of_verb runTask_def)
  next
    assume "verb = ''db:migrate:history''" "c = Executed"
    then show ?thesis
      using rejected(3) [where umzug = umzug and w = w, OF assms(2)]
      by (simp add: task_of_verb runTask_def)
  next
    assume v: "verb = ''db:migrate:undo''"
      "c = Down (case rest of [] \<Rightarrow> None | x # xs \<Rightarrow> Some (Target x))"
    from rejected(5) [where umzug = umzug and w = w, OF assms(2) v(2)] show ?thesis
      by (simp only: v(1) runTask_undo)
  next
    assume "verb = ''db:migrate:undo:all''" "c = Down (Some Zero)"
    then show ?thesis
      using rejected(5) [where umzug = umzug and w = w and t = "Some Zero", OF assms(2)]
      by (simp add: task_of_verb runTask_def)
  next
    assume "verb = ''db:reset''" "c = Down (Some Zero)"
    then show ?thesis
      using rejected(5) [where umzug = umzug and w = w and t = "Some Zero", OF assms(2)]
      by (simp add: task_of_verb runTask_def)
  qed
qed

lemma reset_up_rejected:
  assumes "umzug (Down (Some Zero)) (engine w) = (evs, Inr migrations, e1)"
    and "umzug (Up None) e1 = (evs2, Inl error, e2)"
  shows "fst (main umzug sys (node # script # ''db:reset'' # rest) w) = 1"
    and "stdout (snd (main umzug sys (node # script # ''db:reset'' # rest) w)) =
      stdout w @ concat (map (emitted (listeners (constructor w))) evs) @
      [if length migrations > 0
       then ''Reverted '' @ decimal (length migrations) @ '' migrations.''
       else ''No migrations were reverted.''] @
      concat (map (emitted (listeners (constructor w))) evs2) @
      [''Error: '' @ message error]"
proof -
  let ?argv = "node # script # ''db:reset'' # rest"
  define line where "line =
      (if length migrations > 0
       then ''Reverted '' @ decimal (length migrations) @ '' migrations.''
       else ''No migrations were reverted.'')"
  define w1 where "w1 = log line (fold emit evs
      (constructor w\<lparr>engine := e1, calls := calls (constructor w) @ [Down (Some Zero)]\<rparr>))"
  from assms(1) have "umzug (Down (Some Zero)) (engine (constructor w)) = (evs, Inr migrations, e1)"
    by simp
  then have u: "undo umzug (Some Zero) (constructor w) = (Return (), w1)"
    by (simp add: undo_response w1_def line_def)
  have e: "engine w1 = e1" "stdout w1 = stdout w @ concat (map (emitted (listeners (constructor w))) evs) @ [line]"
    "listeners w1 = listeners (constructor w)"
    by (simp_all add: w1_def fold_emit_stdout)
  from assms(2) have "await umzug (Up None) w1 =
      (Throw error, fold emit evs2 (w1\<lparr>engine := e2, calls := calls w1 @ [Up None]\<rparr>))"
    by (simp add: await_def e(1))
  then have m: "migrate umzug None w1 =
      (Throw error, fold emit evs2 (w1\<lparr>engine := e2, calls := calls w1 @ [Up None]\<rparr>))"
    by (simp add: migrate_def)
  have run: "runTask umzug sys (task_of ?argv) (options_of ?argv) (constructor w) =
      (Throw error, fold emit evs2 (w1\<lparr>engine := e2, calls := calls w1 @ [Up None]\<rparr>))"
    by (simp only: runTask_reset u) (simp add: m)
  show "fst (main umzug sys ?argv w) = 1"
    by (simp only: main_fst run) simp
  show "stdout (snd (main umzug sys ?argv w)) =
      stdout w @ concat (map (emitted (listeners (constructor w))) evs) @
      [if length migrations > 0
       then ''Reverted '' @ decimal (length migrations) @ '' migrations.''
       else ''No migrations were reverted.''] @
      concat (map (emitted (listeners (constructor w))) evs2) @
      [''Error: '' @ message error]"
    unfolding line_def [symmetric]
    by (simp only: main_stdout run) (simp add: fold_emit_stdout e)
qed

lemma generate_read_error:
  assumes "files w (resolve sys [cwd sys, ''migrations'', ''migration.sample.js'']) = None"
    and "resolve sys [cwd sys, ''migrations'', timestamp (now sys) @ ''-'' @ name @ ''.js''] \<noteq>
         resolve sys [cwd sys, ''migrations'', ''migration.sample.js'']"
  shows "fst (generate sys name w) =
      Throw (Error (''ENOENT: no such file or directory, open '' @ [CHR 0x27] @
        resolve sys [cwd sys, ''migrations'', ''migration.sample.js''] @ [CHR 0x27]))"
    and "stdout (snd (generate sys name w)) = stdout w"
  using assms
  by (simp_all add: generate_def Let_def pipe_def createWriteStream_def createReadStream_def
      split: option.splits)

lemma generate_write_error:
  assumes "files w (resolve sys [cwd sys, ''migrations'', ''migration.sample.js'']) = Some bytes"
    and "write_error sys (resolve sys [cwd sys, ''migrations'', timestamp (now sys) @ ''-'' @ name @ ''.js'']) = Some m"
  shows "fst (generate sys name w) = Throw (Error m)"
    and "stdout (snd (generate sys name w)) = stdout w"
  using assms
  by (simp_all add: generate_def Let_def pipe_def createWriteStream_def createReadStream_def)

lemma listed_stop:
  "[] \<notin> set fs \<Longrightarrow> listed (map Migration fs @ Migration [] # after) = fs"
  by (induction fs) (auto simp: file_or_migration_def)


lemma listing_type_error:
  assumes "verb = ''db:migrate:status'' \<and> c = Pending \<and> header = ''Pending migrations:''
     \<or> verb = ''db:migrate:history'' \<and> c = Executed \<and> header = ''Executed migrations:''"
    and "umzug c (engine w) = (evs, Inr (map Migration fs @ Migration [] # after), e')"
    and "[] \<notin> set fs"
  shows "fst (main umzug sys (node # script # verb # rest) w) = 1"
    and "stdout (snd (main umzug sys (node # script # verb # rest) w)) =
      stdout w @ concat (map (emitted (listeners (constructor w))) evs) @
      header #
      map (\<lambda>(i, n). ''  '' @ decimal i @ '') '' @ replace ''.js'' [] n) (enumerate 1 fs) @
      [''Error: '' @ message replace_is_not_a_function]"
proof -
  let ?ms = "map Migration fs @ Migration [] # after"
  have l: "listed ?ms = fs"
    using assms(3) by (rule listed_stop)
  have ne: "?ms \<noteq> []" "length (listed ?ms) \<noteq> length ?ms"
    by (simp_all add: l)
  from assms(2) have r: "umzug c (engine (constructor w)) = (evs, Inr ?ms, e')"
    by simp
  from assms(1) have "fst (main umzug sys (node # script # verb # rest) w) = 1
    \<and> stdout (snd (main umzug sys (node # script # verb # rest) w)) =
      stdout w @ concat (map (emitted (listeners (constructor w))) evs) @
      header #
      map (\<lambda>(i, n). ''  '' @ decimal i @ '') '' @ replace ''.js'' [] n) (enumerate 1 fs) @
      [''Error: '' @ message replace_is_not_a_function]"
  proof (elim disjE conjE)
    assume v: "verb = ''db:migrate:status''" "c = Pending" "header = ''Pending migrations:''"
    from listing_returned(1) [where umzug = umzug and w = "constructor w", OF r ne(1) v(2)]
    show ?thesis
      using ne(2) by (simp add: v l main_fst main_stdout task_of_verb runTask_def)
  next
    assume v: "verb = ''db:migrate:history''" "c = Executed" "header = ''Executed migrations:''"
    from listing_returned(2) [where umzug = umzug and w = "constructor w", OF r ne(1) v(2)]
    show ?thesis
      using ne(2) by (simp add: v l main_fst main_stdout task_of_verb runTask_def)
  qed
  then show "fst (main umzug sys (node # script # verb # rest) w) = 1"
    and "stdout (snd (main umzug sys (node # script # verb # rest) w)) =
      stdout w @ concat (map (emitted (listeners (constructor w))) evs) @
      header #
      map (\<lambda>(i, n). ''  '' @ decimal i @ '') '' @ replace ''.js'' [] n) (enumerate 1 fs) @
      [''Error: '' @ message replace_is_not_a_function]"
    by (rule conjunct1, rule conjunct2)
qed

lemma generate_error_exit:
  assumes "name \<noteq> []" "fst (generate sys name (constructor w)) = Throw error"
    "stdout (snd (generate sys name (constructor w))) = stdout w"
  shows "fst (main umzug sys (node # script # ''migration:generate'' # name # rest) w) = 1"
    and "stdout (snd (main umzug sys (node # script # ''migration:generate'' # name # rest) w)) =
      stdout w @ [''Error: '' @ message error]"
  using assms by (simp_all add: main_fst main_stdout generate_without_name)

section \<open>The verbs\<close>

text \<open>
  In the theorems below the array \<open>process.argv\<close> is written
  \<open>node # script # verb # rest\<close>: the path of the interpreter, the path of the script,
  the verb, and what follows it.
\<close>

subsection \<open>\<open>db:migrate:check\<close>\<close>

text \<open>
  C2. Running \<open>db:migrate:check\<close> makes one call on the engine, \<open>pending()\<close>, and never
  \<open>up\<close> or \<open>down\<close>; when the engine returns the pending list, the process exits with
  code 1 if the list is non-empty and with code 0 if it is empty, whatever the state of
  the engine and of the world, and the engine is left in the state \<open>pending()\<close> left it in.
\<close>

theorem check_exit_code:
  "calls (snd (main umzug sys (node # script # ''db:migrate:check'' # rest) w)) = calls w @ [Pending]
   \<and> (umzug Pending (engine w) = (evs, Inr migrations, e') \<longrightarrow>
        fst (main umzug sys (node # script # ''db:migrate:check'' # rest) w) =
          (if migrations = [] then 0 else 1)
        \<and> engine (snd (main umzug sys (node # script # ''db:migrate:check'' # rest) w)) = e')"
  by (simp add: main_calls main_fst main_engine task_of_verb runTask_def checkMigrations_calls
      checkMigrations_returned)

theorem check_exit_code_witness:
  "busy_engine Pending (engine example_world) =
     ([], Inr [Migration ''20230101120000-create-users.js'', Migration ''a.js.old.js''], ())
   \<and> fst (main busy_engine example_env [''node'', ''cli.js'', ''db:migrate:check''] example_world) = 1
   \<and> idle_engine Pending (engine example_world) = ([], Inr [], ())
   \<and> fst (main idle_engine example_env [''node'', ''cli.js'', ''db:migrate:check''] example_world) = 0"
proof -
  have busy: "busy_engine Pending (engine example_world) =
      ([], Inr [Migration ''20230101120000-create-users.js'', Migration ''a.js.old.js''], ())"
    by (simp add: busy_engine_def)
  have idle: "idle_engine Pending (engine example_world) = ([], Inr [], ())"
    by (simp add: idle_engine_def)
  show ?thesis
    using busy idle
      check_exit_code [of busy_engine example_env "''node''" "''cli.js''" "[]" example_world
        "[]" "[Migration ''20230101120000-create-users.js'', Migration ''a.js.old.js'']" "()"]
      check_exit_code [of idle_engine example_env "''node''" "''cli.js''" "[]" example_world
        "[]" "[]" "()"]
    by simp
qed

subsection \<open>\<open>db:migrate:undo\<close> and \<open>db:migrate:undo:all\<close>\<close>


subsection \<open>The listeners\<close>

text \<open>
  C9. Constructing the command line keeps the listeners that were there and registers
  four more, one for each of \<open>migrating\<close>, \<open>migrated\<close>, \<open>reverting\<close> and \<open>reverted\<close>, in
  this order; so exactly one of them is registered for each kind. When an event of a
  kind is emitted with a unit id, the listener registered for that kind writes one line
  to standard output, after the lines of the listeners that were there before, and the
  line holds the id: \<open>== id: migrating ==\<close>, and the same with the kind's own word
  (followed by a line feed for \<open>migrated\<close> and \<open>reverted\<close>). The events that an awaited
  engine call emits are written so, in order. Nothing else is registered during a run,
  whatever the command line.
\<close>

theorem constructor_registers_listeners:
  "take (length (listeners w)) (listeners (constructor w)) = listeners w
   \<and> map fst (drop (length (listeners w)) (listeners (constructor w))) =
       [Migrating, Migrated, Reverting, Reverted]
   \<and> length (filter (\<lambda>l. fst l = ev) (drop (length (listeners w)) (listeners (constructor w)))) = 1
   \<and> emitted (drop (length (listeners w)) (listeners (constructor w))) (ev, unit_id) =
       [''== '' @ unit_id @ '': '' @
        (case ev of
           Migrating \<Rightarrow> ''migrating ==''
         | Migrated \<Rightarrow> ''migrated ==\<newline>''
         | Reverting \<Rightarrow> ''reverting ==''
         | Reverted \<Rightarrow> ''reverted ==\<newline>'')]
   \<and> stdout (emit (ev, unit_id) (constructor w)) =
       stdout w @ emitted (listeners w) (ev, unit_id) @
       [''== '' @ unit_id @ '': '' @
        (case ev of
           Migrating \<Rightarrow> ''migrating ==''
         | Migrated \<Rightarrow> ''migrated ==\<newline>''
         | Reverting \<Rightarrow> ''reverting ==''
         | Reverted \<Rightarrow> ''reverted ==\<newline>'')]
   \<and> stdout (snd (await umzug c (constructor w))) =
       stdout w @ concat (map (emitted (listeners (constructor w))) (fst (umzug c (engine w))))
   \<and> listeners (snd (main umzug sys argv w)) = listeners (constructor w)"
proof -
  have a: "stdout (snd (await umzug c (constructor w))) =
       stdout w @ concat (map (emitted (listeners (constructor w))) (fst (umzug c (engine w))))"
    by (cases "umzug c (engine w)") (simp add: await_def fold_emit_stdout)
  show ?thesis
    unfolding a
    by (cases ev)
      (simp_all add: constructor_def emit_def emitted_append emitted_def
        main_listeners [unfolded constructor_def])
qed

theorem constructor_registers_listeners_witness:
  "stdout (emit (Migrating, ''20230101120000-create-users'') (constructor example_world)) =
     [''== 20230101120000-create-users: migrating =='']
   \<and> stdout (emit (Migrated, ''20230101120000-create-users'') (constructor example_world)) =
     [''== 20230101120000-create-users: migrated ==\<newline>'']
   \<and> stdout (emit (Reverting, ''20230101120000-create-users'') (constructor example_world)) =
     [''== 20230101120000-create-users: reverting =='']
   \<and> stdout (emit (Reverted, ''20230101120000-create-users'') (constructor example_world)) =
     [''== 20230101120000-create-users: reverted ==\<newline>'']
   \<and> stdout (snd (await busy_engine (Up None) (constructor example_world))) =
     [''== 20230101120000-create-users.js: migrating =='',
      ''== 20230101120000-create-users.js: migrated ==\<newline>'']"
proof -
  have w: "stdout example_world = []" "listeners example_world = []"
    by (simp_all add: example_world_def)
  have 1: "stdout (emit (Migrating, ''20230101120000-create-users'') (constructor example_world)) =
     [''== 20230101120000-create-users: migrating =='']"
    using constructor_registers_listeners [where w = example_world and umzug = busy_engine
        and c = "Up None" and sys = example_env and argv = "[]" and ev = Migrating
        and unit_id = "''20230101120000-create-users''",
        THEN conjunct2, THEN conjunct2, THEN conjunct2, THEN conjunct2, THEN conjunct1]
    by (simp add: w emitted_def)
  have 2: "stdout (emit (Migrated, ''20230101120000-create-users'') (constructor example_world)) =
     [''== 20230101120000-create-users: migrated ==\<newline>'']"
    using constructor_registers_listeners [where w = example_world and umzug = busy_engine
        and c = "Up None" and sys = example_env and argv = "[]" and ev = Migrated
        and unit_id = "''20230101120000-create-users''",
        THEN conjunct2, THEN conjunct2, THEN conjunct2, THEN conjunct2, THEN conjunct1]
    by (simp add: w emitted_def)
  have 3: "stdout (emit (Reverting, ''20230101120000-create-users'') (constructor example_world)) =
     [''== 20230101120000-create-users: reverting =='']"
    using constructor_registers_listeners [where w = example_world and umzug = busy_engine
        and c = "Up None" and sys = example_env and argv = "[]" and ev = Reverting
        and unit_id = "''20230101120000-create-users''",
        THEN conjunct2, THEN conjunct2, THEN conjunct2, THEN conjunct2, THEN conjunct1]
    by (simp add: w emitted_def)
  have 4: "stdout (emit (Reverted, ''20230101120000-create-users'') (constructor example_world)) =
     [''== 20230101120000-create-users: reverted ==\<newline>'']"
    using constructor_registers_listeners [where w = example_world and umzug = busy_engine
        and c = "Up None" and sys = example_env and argv = "[]" and ev = Reverted
        and unit_id = "''20230101120000-create-users''",
        THEN conjunct2, THEN conjunct2, THEN conjunct2, THEN conjunct2, THEN conjunct1]
    by (simp add: w emitted_def)
  have 5: "stdout (snd (await busy_engine (Up None) (constructor example_world))) =
     [''== 20230101120000-create-users.js: migrating =='',
      ''== 20230101120000-create-users.js: migrated ==\<newline>'']"
    using constructor_registers_listeners [where w = example_world and umzug = busy_engine
        and c = "Up None" and sys = example_env and argv = "[]" and ev = Migrating
        and unit_id = "''20230101120000-create-users''",
        THEN conjunct2, THEN conjunct2, THEN conjunct2, THEN conjunct2,
        THEN conjunct2, THEN conjunct1]
    by (simp add: w busy_engine_def constructor_def emitted_def)
  show ?thesis
    using 1 2 3 4 5 by (intro conjI)
qed

subsection \<open>\<open>db:migrate\<close>\<close>

text \<open>
  C5, as the claim states it, fails: after the call of \<open>up\<close> a count is printed only
  when the promise of \<open>up\<close> is fulfilled. With an engine that rejects it, \<open>up()\<close> is
  called, no count is printed, the only line written is the error's, and the exit code
  is 1.
\<close>

theorem migrate_count_counterexample:
  "calls (snd (main failing_engine example_env [''node'', ''cli.js'', ''db:migrate''] example_world)) = [Up None]
   \<and> stdout (snd (main failing_engine example_env [''node'', ''cli.js'', ''db:migrate''] example_world)) = [''Error: boom'']
   \<and> fst (main failing_engine example_env [''node'', ''cli.js'', ''db:migrate''] example_world) = 1"
  by (simp add: main_def runTask_def options_of_def migrate_def await_def failing_engine_def
      example_world_def constructor_def at_def task_of_def)

text \<open>
  C5, amended. \<open>db:migrate\<close> makes exactly one call on the engine: \<open>up({ to: x })\<close>
  when a positional argument \<open>x\<close> follows the verb, \<open>up()\<close> without options when none
  does. When that call is fulfilled with N migrations, the lines of the events come
  first, then the count is printed, \<open>Executed N migrations.\<close> for N > 0 and
  \<open>No migrations were executed.\<close> for N = 0, and the exit code is 0. When the call is
  rejected, no count is printed: the last line is \<open>Error: \<close> and the message, and the
  exit code is 1.
\<close>

theorem migrate_calls_up_prints_count:
  "calls (snd (main umzug sys (node # script # ''db:migrate'' # rest) w)) =
     calls w @ [Up (case rest of [] \<Rightarrow> None | x # xs \<Rightarrow> Some (Target x))]
   \<and> (umzug (Up (case rest of [] \<Rightarrow> None | x # xs \<Rightarrow> Some (Target x))) (engine w) = (evs, Inr migrations, e') \<longrightarrow>
        fst (main umzug sys (node # script # ''db:migrate'' # rest) w) = 0
        \<and> stdout (snd (main umzug sys (node # script # ''db:migrate'' # rest) w)) =
            stdout w @ concat (map (emitted (listeners (constructor w))) evs) @
            [if length migrations > 0
             then ''Executed '' @ decimal (length migrations) @ '' migrations.''
             else ''No migrations were executed.''])
   \<and> (umzug (Up (case rest of [] \<Rightarrow> None | x # xs \<Rightarrow> Some (Target x))) (engine w) = (evs, Inl error, e') \<longrightarrow>
        fst (main umzug sys (node # script # ''db:migrate'' # rest) w) = 1
        \<and> stdout (snd (main umzug sys (node # script # ''db:migrate'' # rest) w)) =
            stdout w @ concat (map (emitted (listeners (constructor w))) evs) @
            [''Error: '' @ message error])"
proof -
  let ?d = "case rest of [] \<Rightarrow> None | x # xs \<Rightarrow> Some x"
  let ?argv = "node # script # ''db:migrate'' # rest"
  have d: "(case rest of [] \<Rightarrow> None | x # xs \<Rightarrow> Some (Target x)) = map_option Target ?d"
    by (simp split: list.splits)
  have run: "runTask umzug sys (task_of ?argv) (options_of ?argv) (constructor w) =
      migrate umzug ?d (constructor w)"
    by (rule runTask_migrate)
  have "calls (snd (main umzug sys ?argv w)) = calls w @ [Up (map_option Target ?d)]"
    by (simp only: main_calls run migrate_calls constructor_fields)
  moreover have "fst (main umzug sys ?argv w) = 0
      \<and> stdout (snd (main umzug sys ?argv w)) =
            stdout w @ concat (map (emitted (listeners (constructor w))) evs) @
            [if length migrations > 0
             then ''Executed '' @ decimal (length migrations) @ '' migrations.''
             else ''No migrations were executed.'']"
    if "umzug (Up (map_option Target ?d)) (engine w) = (evs, Inr migrations, e')"
  proof -
    from that have "umzug (Up (map_option Target ?d)) (engine (constructor w)) = (evs, Inr migrations, e')"
      by simp
    then have "migrate umzug ?d (constructor w) =
        (Return (),
         log (if length migrations > 0
              then ''Executed '' @ decimal (length migrations) @ '' migrations.''
              else ''No migrations were executed.'')
           (fold emit evs (constructor w\<lparr>engine := e', calls := calls (constructor w) @ [Up (map_option Target ?d)]\<rparr>)))"
      by (simp add: migrate_response)
    then show ?thesis
      by (simp add: main_fst main_stdout run fold_emit_stdout)
  qed
  moreover have "fst (main umzug sys ?argv w) = 1
      \<and> stdout (snd (main umzug sys ?argv w)) =
            stdout w @ concat (map (emitted (listeners (constructor w))) evs) @
            [''Error: '' @ message error]"
    if "umzug (Up (map_option Target ?d)) (engine w) = (evs, Inl error, e')"
  proof -
    from that have "umzug (Up (map_option Target ?d)) (engine (constructor w)) = (evs, Inl error, e')"
      by simp
    then have "migrate umzug ?d (constructor w) =
        (Throw error,
         fold emit evs (constructor w\<lparr>engine := e', calls := calls (constructor w) @ [Up (map_option Target ?d)]\<rparr>))"
      by (simp add: migrate_response)
    then show ?thesis
      by (simp add: main_fst main_stdout run fold_emit_stdout)
  qed
  ultimately show ?thesis
    unfolding d by blast
qed

theorem migrate_calls_up_prints_count_witness:
  "busy_engine (Up (Some (Target ''20230101120000-create-users.js''))) (engine example_world) =
     ([(Migrating, ''20230101120000-create-users.js''), (Migrated, ''20230101120000-create-users.js'')],
      Inr [Migration ''20230101120000-create-users.js''], ())
   \<and> fst (main busy_engine example_env
        [''node'', ''cli.js'', ''db:migrate'', ''20230101120000-create-users.js''] example_world) = 0
   \<and> stdout (snd (main busy_engine example_env
        [''node'', ''cli.js'', ''db:migrate'', ''20230101120000-create-users.js''] example_world)) =
       [''== 20230101120000-create-users.js: migrating =='',
        ''== 20230101120000-create-users.js: migrated ==\<newline>'',
        ''Executed 1 migrations.'']
   \<and> failing_engine (Up None) (engine example_world) = ([], Inl (Error ''boom''), ())
   \<and> fst (main failing_engine example_env [''node'', ''cli.js'', ''db:migrate''] example_world) = 1"
  using
    migrate_calls_up_prints_count [where umzug = busy_engine and sys = example_env
      and node = "''node''" and script = "''cli.js''"
      and rest = "[''20230101120000-create-users.js'']" and w = example_world
      and evs = "[(Migrating, ''20230101120000-create-users.js''), (Migrated, ''20230101120000-create-users.js'')]"
      and migrations = "[Migration ''20230101120000-create-users.js'']" and e' = "()"]
    migrate_calls_up_prints_count [where umzug = failing_engine and sys = example_env
      and node = "''node''" and script = "''cli.js''" and rest = "[]" and w = example_world
      and evs = "[]" and error = "Error ''boom''" and e' = "()"]
  by (simp add: busy_engine_def failing_engine_def example_world_def constructor_def emitted_def
      decimal.simps digit_def)

subsection \<open>\<open>db:reset\<close>\<close>

text \<open>
  C7, as the claim states it, fails: the second engine operation is made only when the
  first is fulfilled. With an engine that rejects \<open>down\<close>, \<open>db:reset\<close> makes one call on
  the engine, \<open>down({ to: 0 })\<close>, and exits with code 1; \<open>up\<close> is never called.
\<close>

theorem reset_counterexample:
  "calls (snd (main failing_engine example_env [''node'', ''cli.js'', ''db:reset''] example_world)) =
     [Down (Some Zero)]
   \<and> fst (main failing_engine example_env [''node'', ''cli.js'', ''db:reset''] example_world) = 1"
  by (simp add: main_def runTask_def options_of_def task_of_def at_def undo_def await_def
      failing_engine_def example_world_def constructor_def)

text \<open>
  C7, amended. \<open>db:reset\<close> first calls \<open>down({ to: 0 })\<close>. When that call is fulfilled,
  it then calls \<open>up()\<close> without options, on the state of the engine that the completed
  revert left, and these are its two engine operations, in this order. When the revert
  is rejected, \<open>up\<close> is not called: the one engine operation is the revert, and the exit
  code is 1.
\<close>

theorem reset_down_then_up:
  "(umzug (Down (Some Zero)) (engine w) = (evs, Inr migrations, e') \<longrightarrow>
      calls (snd (main umzug sys (node # script # ''db:reset'' # rest) w)) =
        calls w @ [Down (Some Zero), Up None]
      \<and> engine (snd (main umzug sys (node # script # ''db:reset'' # rest) w)) =
        snd (snd (umzug (Up None) e')))
   \<and> (umzug (Down (Some Zero)) (engine w) = (evs, Inl error, e') \<longrightarrow>
      calls (snd (main umzug sys (node # script # ''db:reset'' # rest) w)) =
        calls w @ [Down (Some Zero)]
      \<and> engine (snd (main umzug sys (node # script # ''db:reset'' # rest) w)) = e'
      \<and> fst (main umzug sys (node # script # ''db:reset'' # rest) w) = 1)"
proof -
  let ?argv = "node # script # ''db:reset'' # rest"
  let ?w1 = "fold emit evs (constructor w\<lparr>engine := e', calls := calls (constructor w) @ [Down (Some Zero)]\<rparr>)"
  have run: "runTask umzug sys (task_of ?argv) (options_of ?argv) (constructor w) =
      (case undo umzug (Some Zero) (constructor w) of
         (Return u, w') \<Rightarrow> migrate umzug None w'
       | (Throw error, w') \<Rightarrow> (Throw error, w')
       | (Exit c, w') \<Rightarrow> (Exit c, w'))"
    by (rule runTask_reset)
  have "calls (snd (main umzug sys ?argv w)) = calls w @ [Down (Some Zero), Up None]
      \<and> engine (snd (main umzug sys ?argv w)) = snd (snd (umzug (Up None) e'))"
    if "umzug (Down (Some Zero)) (engine w) = (evs, Inr migrations, e')"
  proof -
    from that have "umzug (Down (Some Zero)) (engine (constructor w)) = (evs, Inr migrations, e')"
      by simp
    then have "undo umzug (Some Zero) (constructor w) =
        (Return (),
         log (if length migrations > 0
              then ''Reverted '' @ decimal (length migrations) @ '' migrations.''
              else ''No migrations were reverted.'') ?w1)"
      by (simp add: undo_response)
    then have r: "runTask umzug sys (task_of ?argv) (options_of ?argv) (constructor w) =
        migrate umzug None
          (log (if length migrations > 0
              then ''Reverted '' @ decimal (length migrations) @ '' migrations.''
              else ''No migrations were reverted.'') ?w1)"
      by (simp add: run)
    obtain evs2 r2 e2 where u: "umzug (Up None) e' = (evs2, r2, e2)"
      by (cases "umzug (Up None) e'") auto
    show ?thesis
      using u migrate_calls [of umzug None] await_response [of umzug "Up None" _ evs2 r2 e2]
      by (cases r2) (simp_all add: main_calls main_engine r migrate_def)
  qed
  moreover have "calls (snd (main umzug sys ?argv w)) = calls w @ [Down (Some Zero)]
      \<and> engine (snd (main umzug sys ?argv w)) = e'
      \<and> fst (main umzug sys ?argv w) = 1"
    if "umzug (Down (Some Zero)) (engine w) = (evs, Inl error, e')"
  proof -
    from that have "umzug (Down (Some Zero)) (engine (constructor w)) = (evs, Inl error, e')"
      by simp
    then have "undo umzug (Some Zero) (constructor w) = (Throw error, ?w1)"
      by (simp add: undo_response)
    then show ?thesis
      by (simp add: main_calls main_engine main_fst run)
  qed
  ultimately show ?thesis by blast
qed

theorem reset_down_then_up_witness:
  "busy_engine (Down (Some Zero)) (engine example_world) =
     ([(Reverting, ''20230101120000-create-users.js''), (Reverted, ''20230101120000-create-users.js'')],
      Inr [Migration ''20230101120000-create-users.js''], ())
   \<and> calls (snd (main busy_engine example_env [''node'', ''cli.js'', ''db:reset''] example_world)) =
       [Down (Some Zero), Up None]
   \<and> failing_engine (Down (Some Zero)) (engine example_world) = ([], Inl (Error ''boom''), ())
   \<and> calls (snd (main failing_engine example_env [''node'', ''cli.js'', ''db:reset''] example_world)) =
       [Down (Some Zero)]"
  using
    reset_down_then_up [where umzug = busy_engine and sys = example_env
      and node = "''node''" and script = "''cli.js''" and rest = "[]" and w = example_world
      and evs = "[(Reverting, ''20230101120000-create-users.js''), (Reverted, ''20230101120000-create-users.js'')]"
      and migrations = "[Migration ''20230101120000-create-users.js'']" and e' = "()"]
    reset_down_then_up [where umzug = failing_engine and sys = example_env
      and node = "''node''" and script = "''cli.js''" and rest = "[]" and w = example_world
      and evs = "[]" and error = "Error ''boom''" and e' = "()"]
  by (simp add: busy_engine_def failing_engine_def example_world_def)

subsection \<open>Errors\<close>

text \<open>
  C3. Whenever handling the verb throws an error, the run ends with exit code 1 and the
  line \<open>Error: \<close> followed by the error's message is the last one written to standard
  output; this is the one place where a thrown error becomes an exit code. Every place
  where the program can throw is covered: \<open>migration:generate\<close> without a name, or with
  an empty one (\<open>Migration name should be specified.\<close>); a verb that is not a label
  (\<open>Task not found.\<close>); the rejected promise of the engine call of each verb, with or
  without a target, and of the \<open>up()\<close> that follows the revert of \<open>db:reset\<close>; the
  \<open>TypeError\<close> of a listing that meets an object without a file name; and the error of
  the read stream or of the write stream of \<open>migration:generate\<close>, which its \<open>catch\<close>
  throws again. In each case what was written before the error stays, the error line
  follows it, and the exit code is 1.
\<close>

theorem errors_exit_1:
  "(runTask umzug sys (task_of argv) (options_of argv) (constructor w) = (Throw error, w') \<longrightarrow>
      main umzug sys argv w = (1, log (''Error: '' @ message error) w'))
   \<and> main umzug sys [node, script, ''migration:generate''] w =
       (1, log ''Error: Migration name should be specified.'' (constructor w))
   \<and> main umzug sys (node # script # ''migration:generate'' # [] # rest) w =
       (1, log ''Error: Migration name should be specified.'' (constructor w))
   \<and> (verb \<notin> set tasks \<and> verb \<noteq> [] \<longrightarrow>
        main umzug sys (node # script # verb # rest) w =
          (1, log ''Error: Task not found.'' (constructor w)))
   \<and> ((verb, c) \<in> set
        [(''db:migrate:check'', Pending),
         (''db:migrate'', Up (case rest of [] \<Rightarrow> None | x # xs \<Rightarrow> Some (Target x))),
         (''db:migrate:status'', Pending), (''db:migrate:history'', Executed),
         (''db:migrate:undo'', Down (case rest of [] \<Rightarrow> None | x # xs \<Rightarrow> Some (Target x))),
         (''db:migrate:undo:all'', Down (Some Zero)),
         (''db:reset'', Down (Some Zero))]
      \<and> umzug c (engine w) = (evs, Inl error, e') \<longrightarrow>
        fst (main umzug sys (node # script # verb # rest) w) = 1
        \<and> stdout (snd (main umzug sys (node # script # verb # rest) w)) =
            stdout w @ concat (map (emitted (listeners (constructor w))) evs) @
            [''Error: '' @ message error])
   \<and> (umzug (Down (Some Zero)) (engine w) = (evs, Inr migrations, e')
      \<and> umzug (Up None) e' = (later, Inl error, e_up) \<longrightarrow>
        fst (main umzug sys (node # script # ''db:reset'' # rest) w) = 1
        \<and> stdout (snd (main umzug sys (node # script # ''db:reset'' # rest) w)) =
            stdout w @ concat (map (emitted (listeners (constructor w))) evs) @
            [if length migrations > 0
             then ''Reverted '' @ decimal (length migrations) @ '' migrations.''
             else ''No migrations were reverted.''] @
            concat (map (emitted (listeners (constructor w))) later) @
            [''Error: '' @ message error])
   \<and> ((verb = ''db:migrate:status'' \<and> c = Pending \<and> header = ''Pending migrations:''
       \<or> verb = ''db:migrate:history'' \<and> c = Executed \<and> header = ''Executed migrations:'')
      \<and> umzug c (engine w) = (evs, Inr (map Migration fs @ Migration [] # after), e')
      \<and> [] \<notin> set fs \<longrightarrow>
        fst (main umzug sys (node # script # verb # rest) w) = 1
        \<and> stdout (snd (main umzug sys (node # script # verb # rest) w)) =
            stdout w @ concat (map (emitted (listeners (constructor w))) evs) @
            header #
            map (\<lambda>(i, n). ''  '' @ decimal i @ '') '' @ replace ''.js'' [] n) (enumerate 1 fs) @
            [''Error: '' @ message replace_is_not_a_function])
   \<and> (name \<noteq> []
      \<and> files w (resolve sys [cwd sys, ''migrations'', ''migration.sample.js'']) = None
      \<and> resolve sys [cwd sys, ''migrations'', timestamp (now sys) @ ''-'' @ name @ ''.js''] \<noteq>
         resolve sys [cwd sys, ''migrations'', ''migration.sample.js''] \<longrightarrow>
        fst (main umzug sys (node # script # ''migration:generate'' # name # rest) w) = 1
        \<and> stdout (snd (main umzug sys (node # script # ''migration:generate'' # name # rest) w)) =
            stdout w @
            [''Error: '' @ ''ENOENT: no such file or directory, open '' @ [CHR 0x27] @
               resolve sys [cwd sys, ''migrations'', ''migration.sample.js''] @ [CHR 0x27]])
   \<and> (name \<noteq> []
      \<and> files w (resolve sys [cwd sys, ''migrations'', ''migration.sample.js'']) = Some bytes
      \<and> write_error sys
          (resolve sys [cwd sys, ''migrations'', timestamp (now sys) @ ''-'' @ name @ ''.js'']) =
         Some reason \<longrightarrow>
        fst (main umzug sys (node # script # ''migration:generate'' # name # rest) w) = 1
        \<and> stdout (snd (main umzug sys (node # script # ''migration:generate'' # name # rest) w)) =
            stdout w @ [''Error: '' @ reason])"
proof (intro conjI impI)
  assume "runTask umzug sys (task_of argv) (options_of argv) (constructor w) = (Throw error, w')"
  then show "main umzug sys argv w = (1, log (''Error: '' @ message error) w')"
    by (rule main_Throw)
next
  show "main umzug sys [node, script, ''migration:generate''] w =
       (1, log ''Error: Migration name should be specified.'' (constructor w))"
    by (simp add: main_def generate_without_name)
  show "main umzug sys (node # script # ''migration:generate'' # [] # rest) w =
       (1, log ''Error: Migration name should be specified.'' (constructor w))"
    by (simp add: main_def generate_without_name)
next
  assume a: "verb \<notin> set tasks \<and> verb \<noteq> []"
  then have "Some verb \<notin> Some ` set tasks" by auto
  with a show "main umzug sys (node # script # verb # rest) w =
          (1, log ''Error: Task not found.'' (constructor w))"
    by (simp add: main_def task_of_verb runTask_default)
next
  assume a: "(verb, c) \<in> set
        [(''db:migrate:check'', Pending),
         (''db:migrate'', Up (case rest of [] \<Rightarrow> None | x # xs \<Rightarrow> Some (Target x))),
         (''db:migrate:status'', Pending), (''db:migrate:history'', Executed),
         (''db:migrate:undo'', Down (case rest of [] \<Rightarrow> None | x # xs \<Rightarrow> Some (Target x))),
         (''db:migrate:undo:all'', Down (Some Zero)),
         (''db:reset'', Down (Some Zero))]
      \<and> umzug c (engine w) = (evs, Inl error, e')"
  then have "umzug c (engine (constructor w)) = (evs, Inl error, e')" by simp
  from rejected_call [where umzug = umzug and w = "constructor w", OF conjunct1 [OF a] this]
  have run: "runTask umzug sys (task_of (node # script # verb # rest))
      (options_of (node # script # verb # rest)) (constructor w) =
      (Throw error, fold emit evs (constructor w\<lparr>engine := e', calls := calls (constructor w) @ [c]\<rparr>))"
    .
  show "fst (main umzug sys (node # script # verb # rest) w) = 1"
    by (simp add: main_fst run)
  show "stdout (snd (main umzug sys (node # script # verb # rest) w)) =
            stdout w @ concat (map (emitted (listeners (constructor w))) evs) @
            [''Error: '' @ message error]"
    by (simp add: main_stdout run fold_emit_stdout)
next
  assume a: "umzug (Down (Some Zero)) (engine w) = (evs, Inr migrations, e')
      \<and> umzug (Up None) e' = (later, Inl error, e_up)"
  note r = reset_up_rejected [where umzug = umzug and w = w, OF conjunct1 [OF a] conjunct2 [OF a]]
  show "fst (main umzug sys (node # script # ''db:reset'' # rest) w) = 1"
    by (rule r(1))
  show "stdout (snd (main umzug sys (node # script # ''db:reset'' # rest) w)) =
            stdout w @ concat (map (emitted (listeners (constructor w))) evs) @
            [if length migrations > 0
             then ''Reverted '' @ decimal (length migrations) @ '' migrations.''
             else ''No migrations were reverted.''] @
            concat (map (emitted (listeners (constructor w))) later) @
            [''Error: '' @ message error]"
    by (rule r(2))
next
  assume a: "(verb = ''db:migrate:status'' \<and> c = Pending \<and> header = ''Pending migrations:''
       \<or> verb = ''db:migrate:history'' \<and> c = Executed \<and> header = ''Executed migrations:'')
      \<and> umzug c (engine w) = (evs, Inr (map Migration fs @ Migration [] # after), e')
      \<and> [] \<notin> set fs"
  note r = listing_type_error [where umzug = umzug and w = w, OF conjunct1 [OF a]
      conjunct1 [OF conjunct2 [OF a]] conjunct2 [OF conjunct2 [OF a]]]
  show "fst (main umzug sys (node # script # verb # rest) w) = 1"
    by (rule r(1))
  show "stdout (snd (main umzug sys (node # script # verb # rest) w)) =
            stdout w @ concat (map (emitted (listeners (constructor w))) evs) @
            header #
            map (\<lambda>(i, n). ''  '' @ decimal i @ '') '' @ replace ''.js'' [] n) (enumerate 1 fs) @
            [''Error: '' @ message replace_is_not_a_function]"
    by (rule r(2))
next
  assume a: "name \<noteq> []
      \<and> files w (resolve sys [cwd sys, ''migrations'', ''migration.sample.js'']) = None
      \<and> resolve sys [cwd sys, ''migrations'', timestamp (now sys) @ ''-'' @ name @ ''.js''] \<noteq>
         resolve sys [cwd sys, ''migrations'', ''migration.sample.js'']"
  then have f: "files (constructor w) (resolve sys [cwd sys, ''migrations'', ''migration.sample.js'']) = None"
    by simp
  note g = generate_read_error [OF f conjunct2 [OF conjunct2 [OF a]]]
  from g(2) have out: "stdout (snd (generate sys name (constructor w))) = stdout w"
    by simp
  note r = generate_error_exit [where umzug = umzug, OF conjunct1 [OF a] g(1) out]
  show "fst (main umzug sys (node # script # ''migration:generate'' # name # rest) w) = 1"
    by (rule r(1))
  show "stdout (snd (main umzug sys (node # script # ''migration:generate'' # name # rest) w)) =
            stdout w @
            [''Error: '' @ ''ENOENT: no such file or directory, open '' @ [CHR 0x27] @
               resolve sys [cwd sys, ''migrations'', ''migration.sample.js''] @ [CHR 0x27]]"
    using r(2) by (simp only: js_error.sel)
next
  assume a: "name \<noteq> []
      \<and> files w (resolve sys [cwd sys, ''migrations'', ''migration.sample.js'']) = Some bytes
      \<and> write_error sys
          (resolve sys [cwd sys, ''migrations'', timestamp (now sys) @ ''-'' @ name @ ''.js'']) =
         Some reason"
  then have f: "files (constructor w) (resolve sys [cwd sys, ''migrations'', ''migration.sample.js'']) = Some bytes"
    by simp
  note g = generate_write_error [OF f conjunct2 [OF conjunct2 [OF a]]]
  from g(2) have out: "stdout (snd (generate sys name (constructor w))) = stdout w"
    by simp
  note r = generate_error_exit [where umzug = umzug, OF conjunct1 [OF a] g(1) out]
  show "fst (main umzug sys (node # script # ''migration:generate'' # name # rest) w) = 1"
    by (rule r(1))
  show "stdout (snd (main umzug sys (node # script # ''migration:generate'' # name # rest) w)) =
            stdout w @ [''Error: '' @ reason]"
    using r(2) by (simp only: js_error.sel)
qed

theorem errors_exit_1_witness:
  "runTask failing_engine example_env
        (task_of [''node'', ''cli.js'', ''migration:generate''])
        (options_of [''node'', ''cli.js'', ''migration:generate'']) (constructor example_world) =
       (Throw (Error ''Migration name should be specified.''), constructor example_world)
   \<and> main failing_engine example_env [''node'', ''cli.js'', ''migration:generate''] example_world =
       (1, log ''Error: Migration name should be specified.'' (constructor example_world))
   \<and> main idle_engine example_env [''node'', ''cli.js'', ''db:migrate:redo''] example_world =
       (1, log ''Error: Task not found.'' (constructor example_world))
   \<and> failing_engine Executed (engine example_world) = ([], Inl (Error ''boom''), ())
   \<and> fst (main failing_engine example_env [''node'', ''cli.js'', ''db:migrate:history''] example_world) = 1
   \<and> stdout (snd (main failing_engine example_env [''node'', ''cli.js'', ''db:migrate:history''] example_world)) =
       [''Error: boom'']
   \<and> failing_engine (Down (Some (Target ''x''))) (engine example_world) = ([], Inl (Error ''boom''), ())
   \<and> fst (main failing_engine example_env [''node'', ''cli.js'', ''db:migrate:undo'', ''x''] example_world) = 1
   \<and> stdout (snd (main failing_engine example_env [''node'', ''cli.js'', ''db:migrate:undo'', ''x''] example_world)) =
       [''Error: boom'']
   \<and> up_failing_engine (Down (Some Zero)) (engine example_world) = ([], Inr [], ())
   \<and> up_failing_engine (Up None) () = ([], Inl (Error ''boom''), ())
   \<and> fst (main up_failing_engine example_env [''node'', ''cli.js'', ''db:reset''] example_world) = 1
   \<and> stdout (snd (main up_failing_engine example_env [''node'', ''cli.js'', ''db:reset''] example_world)) =
       [''No migrations were reverted.'', ''Error: boom'']
   \<and> nameless_engine Pending (engine example_world) =
       ([], Inr (map Migration [''a.js''] @ Migration [] # []), ())
   \<and> fst (main nameless_engine example_env [''node'', ''cli.js'', ''db:migrate:status''] example_world) = 1
   \<and> stdout (snd (main nameless_engine example_env [''node'', ''cli.js'', ''db:migrate:status''] example_world)) =
       [''Pending migrations:'', ''  1) a'',
        ''Error: (migration.file || migration).replace is not a function'']
   \<and> files bare_world ''/app/migrations/migration.sample.js'' = None
   \<and> fst (main idle_engine example_env [''node'', ''cli.js'', ''migration:generate'', ''add-index'']
        bare_world) = 1
   \<and> stdout (snd (main idle_engine example_env [''node'', ''cli.js'', ''migration:generate'', ''add-index'']
        bare_world)) =
       [''Error: ENOENT: no such file or directory, open '' @ [CHR 0x27] @
        ''/app/migrations/migration.sample.js'' @ [CHR 0x27]]
   \<and> write_error readonly_env ''/app/migrations/20230102030405-add-index.js'' =
       Some ''EACCES: permission denied''
   \<and> fst (main idle_engine readonly_env [''node'', ''cli.js'', ''migration:generate'', ''add-index'']
        example_world) = 1
   \<and> stdout (snd (main idle_engine readonly_env [''node'', ''cli.js'', ''migration:generate'', ''add-index'']
        example_world)) = [''Error: EACCES: permission denied'']"
proof -
  have out: "stdout example_world = []" "stdout bare_world = []"
    "listeners example_world = []"
    by (simp_all add: example_world_def bare_world_def)
  have run: "runTask failing_engine example_env
        (task_of [''node'', ''cli.js'', ''migration:generate''])
        (options_of [''node'', ''cli.js'', ''migration:generate'']) (constructor example_world) =
       (Throw (Error ''Migration name should be specified.''), constructor example_world)"
    by (simp add: generate_without_name)
  have gen: "main failing_engine example_env [''node'', ''cli.js'', ''migration:generate''] example_world =
       (1, log ''Error: Migration name should be specified.'' (constructor example_world))"
    by (rule errors_exit_1 [where rest = "[]" and verb = "[]" and name = "[]", THEN conjunct2, THEN conjunct1])
  have unknown: "''db:migrate:redo'' \<notin> set tasks \<and> ''db:migrate:redo'' \<noteq> []"
    by (simp add: tasks_def)
  have redo: "main idle_engine example_env [''node'', ''cli.js'', ''db:migrate:redo''] example_world =
       (1, log ''Error: Task not found.'' (constructor example_world))"
    by (rule mp [OF errors_exit_1 [where name = "[]", THEN conjunct2, THEN conjunct2, THEN conjunct2, THEN conjunct1] unknown])
  have rej1: "failing_engine Executed (engine example_world) = ([], Inl (Error ''boom''), ())"
    and rej2: "failing_engine (Down (Some (Target ''x''))) (engine example_world) =
      ([], Inl (Error ''boom''), ())"
    by (simp_all add: failing_engine_def)
  have mem1: "(''db:migrate:history'', Executed) \<in> set
        [(''db:migrate:check'', Pending),
         (''db:migrate'', Up (case [] :: string list of [] \<Rightarrow> None | x # xs \<Rightarrow> Some (Target x))),
         (''db:migrate:status'', Pending), (''db:migrate:history'', Executed),
         (''db:migrate:undo'', Down (case [] :: string list of [] \<Rightarrow> None | x # xs \<Rightarrow> Some (Target x))),
         (''db:migrate:undo:all'', Down (Some Zero)),
         (''db:reset'', Down (Some Zero))]"
    by simp
  have mem2: "(''db:migrate:undo'', Down (Some (Target ''x''))) \<in> set
        [(''db:migrate:check'', Pending),
         (''db:migrate'', Up (case [''x''] of [] \<Rightarrow> None | x # xs \<Rightarrow> Some (Target x))),
         (''db:migrate:status'', Pending), (''db:migrate:history'', Executed),
         (''db:migrate:undo'', Down (case [''x''] of [] \<Rightarrow> None | x # xs \<Rightarrow> Some (Target x))),
         (''db:migrate:undo:all'', Down (Some Zero)),
         (''db:reset'', Down (Some Zero))]"
    by simp
  note hist0 = mp [OF errors_exit_1 [where umzug = failing_engine and sys = example_env
        and w = example_world and node = "''node''" and script = "''cli.js''" and rest = "[]"
        and verb = "''db:migrate:history''" and c = Executed and evs = "[]" and e' = "()"
        and error = "Error ''boom''" and name = "[]", THEN conjunct2, THEN conjunct2, THEN conjunct2, THEN conjunct2, THEN conjunct1] conjI [OF mem1 rej1]]
  have hist: "fst (main failing_engine example_env [''node'', ''cli.js'', ''db:migrate:history''] example_world) = 1"
    "stdout (snd (main failing_engine example_env [''node'', ''cli.js'', ''db:migrate:history''] example_world)) =
       [''Error: boom'']"
    using hist0 by (simp_all add: out)
  note undo0 = mp [OF errors_exit_1 [where umzug = failing_engine and sys = example_env
        and w = example_world and node = "''node''" and script = "''cli.js''" and rest = "[''x'']"
        and verb = "''db:migrate:undo''" and c = "Down (Some (Target ''x''))" and evs = "[]" and e' = "()"
        and error = "Error ''boom''" and name = "[]", THEN conjunct2, THEN conjunct2, THEN conjunct2, THEN conjunct2, THEN conjunct1] conjI [OF mem2 rej2]]
  have undo: "fst (main failing_engine example_env [''node'', ''cli.js'', ''db:migrate:undo'', ''x''] example_world) = 1"
    "stdout (snd (main failing_engine example_env [''node'', ''cli.js'', ''db:migrate:undo'', ''x''] example_world)) =
       [''Error: boom'']"
    using undo0 by (simp_all add: out)
  have down: "up_failing_engine (Down (Some Zero)) (engine example_world) = ([], Inr [], ())"
    and up: "up_failing_engine (Up None) () = ([], Inl (Error ''boom''), ())"
    by (simp_all add: up_failing_engine_def)
  note reset0 = mp [OF errors_exit_1 [where umzug = up_failing_engine and sys = example_env
        and w = example_world and node = "''node''" and script = "''cli.js''" and rest = "[]"
        and evs = "[]" and e' = "()" and migrations = "[]" and later = "[]" and e_up = "()"
        and error = "Error ''boom''" and name = "[]", THEN conjunct2, THEN conjunct2, THEN conjunct2, THEN conjunct2, THEN conjunct2, THEN conjunct1] conjI [OF down up]]
  have reset: "fst (main up_failing_engine example_env [''node'', ''cli.js'', ''db:reset''] example_world) = 1"
    "stdout (snd (main up_failing_engine example_env [''node'', ''cli.js'', ''db:reset''] example_world)) =
       [''No migrations were reverted.'', ''Error: boom'']"
    using reset0 by (simp_all add: out)
  have nameless: "nameless_engine Pending (engine example_world) =
       ([], Inr (map Migration [''a.js''] @ Migration [] # []), ())"
    by (simp add: nameless_engine_def)
  have status_hyp: "(''db:migrate:status'' = ''db:migrate:status'' \<and> Pending = Pending
        \<and> ''Pending migrations:'' = ''Pending migrations:''
      \<or> ''db:migrate:status'' = ''db:migrate:history'' \<and> Pending = Executed
        \<and> ''Pending migrations:'' = ''Executed migrations:'')
    \<and> nameless_engine Pending (engine example_world) =
        ([], Inr (map Migration [''a.js''] @ Migration [] # []), ())
    \<and> [] \<notin> set [''a.js'']"
    using nameless by simp
  note status0 = mp [OF errors_exit_1 [where umzug = nameless_engine and sys = example_env
        and w = example_world and node = "''node''" and script = "''cli.js''" and rest = "[]"
        and verb = "''db:migrate:status''" and c = Pending and header = "''Pending migrations:''"
        and evs = "[]" and e' = "()" and fs = "[''a.js'']" and after = "[]" and name = "[]",
        THEN conjunct2, THEN conjunct2, THEN conjunct2, THEN conjunct2, THEN conjunct2, THEN conjunct2, THEN conjunct1] status_hyp]
  have status: "fst (main nameless_engine example_env [''node'', ''cli.js'', ''db:migrate:status''] example_world) = 1"
    "stdout (snd (main nameless_engine example_env [''node'', ''cli.js'', ''db:migrate:status''] example_world)) =
       [''Pending migrations:'', ''  1) a'',
        ''Error: (migration.file || migration).replace is not a function'']"
    using status0 by (simp_all add: out replace_is_not_a_function_def decimal_1 digit_def)
  have ts: "timestamp (now example_env) = ''20230102030405''"
    by (simp add: example_env_def timestamp_def format_def toString_def padStart_def
        decimal.simps digit_def)
  have ro: "now readonly_env = now example_env" "cwd readonly_env = cwd example_env"
    "resolve readonly_env = resolve example_env"
    by (simp_all add: readonly_env_def)
  have paths: "resolve example_env [cwd example_env, ''migrations'', ''migration.sample.js''] =
      ''/app/migrations/migration.sample.js''"
    "resolve example_env [cwd example_env, ''migrations'', ''20230102030405'' @ ''-'' @ ''add-index'' @ ''.js''] =
      ''/app/migrations/20230102030405-add-index.js''"
    by (simp_all add: example_env_def)
  have missing: "files bare_world ''/app/migrations/migration.sample.js'' = None"
    by (simp add: bare_world_def)
  have read_hyp: "''add-index'' \<noteq> []
      \<and> files bare_world (resolve example_env [cwd example_env, ''migrations'', ''migration.sample.js'']) = None
      \<and> resolve example_env [cwd example_env, ''migrations'',
            timestamp (now example_env) @ ''-'' @ ''add-index'' @ ''.js''] \<noteq>
         resolve example_env [cwd example_env, ''migrations'', ''migration.sample.js'']"
    by (simp only: ts paths missing) simp
  note read0 = mp [OF errors_exit_1 [where umzug = idle_engine and sys = example_env
        and w = bare_world and node = "''node''" and script = "''cli.js''" and rest = "[]"
        and name = "''add-index''", THEN conjunct2, THEN conjunct2, THEN conjunct2, THEN conjunct2, THEN conjunct2, THEN conjunct2, THEN conjunct2, THEN conjunct1] read_hyp]
  have read: "fst (main idle_engine example_env [''node'', ''cli.js'', ''migration:generate'', ''add-index'']
        bare_world) = 1"
    "stdout (snd (main idle_engine example_env [''node'', ''cli.js'', ''migration:generate'', ''add-index'']
        bare_world)) =
       [''Error: ENOENT: no such file or directory, open '' @ [CHR 0x27] @
        ''/app/migrations/migration.sample.js'' @ [CHR 0x27]]"
    using read0 by (simp_all add: out paths)
  have denied: "write_error readonly_env ''/app/migrations/20230102030405-add-index.js'' =
       Some ''EACCES: permission denied''"
    by (simp add: readonly_env_def)
  have template: "files example_world ''/app/migrations/migration.sample.js'' =
      Some ''module.exports = {};''"
    by (simp add: example_world_def)
  have write_hyp: "''add-index'' \<noteq> []
      \<and> files example_world (resolve readonly_env [cwd readonly_env, ''migrations'', ''migration.sample.js'']) =
         Some ''module.exports = {};''
      \<and> write_error readonly_env
          (resolve readonly_env [cwd readonly_env, ''migrations'',
             timestamp (now readonly_env) @ ''-'' @ ''add-index'' @ ''.js'']) =
         Some ''EACCES: permission denied''"
    by (simp only: ro ts paths template denied) simp
  note write0 = mp [OF errors_exit_1 [where umzug = idle_engine and sys = readonly_env
        and w = example_world and node = "''node''" and script = "''cli.js''" and rest = "[]"
        and name = "''add-index''" and bytes = "''module.exports = {};''"
        and reason = "''EACCES: permission denied''", THEN conjunct2, THEN conjunct2, THEN conjunct2, THEN conjunct2, THEN conjunct2, THEN conjunct2, THEN conjunct2, THEN conjunct2] write_hyp]
  have "write": "fst (main idle_engine readonly_env [''node'', ''cli.js'', ''migration:generate'', ''add-index'']
        example_world) = 1"
    "stdout (snd (main idle_engine readonly_env [''node'', ''cli.js'', ''migration:generate'', ''add-index'']
        example_world)) = [''Error: EACCES: permission denied'']"
    using write0 by (simp_all add: out)
  show ?thesis
    using run gen redo rej1 hist rej2 undo down up reset nameless status missing read denied "write"
    by (intro conjI)
qed

subsection \<open>No verb, unknown verb\<close>

text \<open>
  C8, as the claim states it, fails for the empty string: it is not a label of the
  dispatch table, yet \<open>if (task)\<close> takes it for no verb, so the usage is printed and the
  exit code is 0, not 1.
\<close>

theorem unknown_verb_counterexample:
  "[] \<notin> set tasks
   \<and> fst (main idle_engine example_env [''node'', ''cli.js'', []] example_world) = 0
   \<and> stdout (snd (main idle_engine example_env [''node'', ''cli.js'', []] example_world)) = [usage]"
  by (simp add: tasks_def main_def task_of_def at_def runTask_def example_world_def constructor_def)

text \<open>
  C8, amended. Without a verb, and with the empty string as verb, the usage is printed
  and the exit code is 0. With a non-empty verb that is not a label of the dispatch table
  the line \<open>Error: Task not found.\<close> is printed and the exit code is 1. In both cases
  the world is the constructed one with that one line more: no call on the engine or its
  storage, no file stream, no change of a file.
\<close>

theorem no_verb_or_unknown_verb:
  "main umzug sys [node, script] w = (0, log usage (constructor w))
   \<and> main umzug sys (node # script # [] # rest) w = (0, log usage (constructor w))
   \<and> (verb \<notin> set tasks \<and> verb \<noteq> [] \<longrightarrow>
        main umzug sys (node # script # verb # rest) w =
          (1, log ''Error: Task not found.'' (constructor w)))
   \<and> calls (log line (constructor w)) = calls w
   \<and> engine (log line (constructor w)) = engine w
   \<and> files (log line (constructor w)) = files w
   \<and> streams (log line (constructor w)) = streams w"
proof -
  have none: "task_of [node, script] = None"
    by (simp add: task_of_def at_def)
  have "None \<notin> Some ` set tasks" "Some [] \<notin> Some ` set tasks"
    by (simp_all add: tasks_def image_iff)
  then have "main umzug sys [node, script] w = (0, log usage (constructor w))"
    "main umzug sys (node # script # [] # rest) w = (0, log usage (constructor w))"
    by (simp_all add: main_def none task_of_verb runTask_default)
  moreover have "main umzug sys (node # script # verb # rest) w =
      (1, log ''Error: Task not found.'' (constructor w))"
    if "verb \<notin> set tasks" "verb \<noteq> []"
  proof -
    from that have "Some verb \<notin> Some ` set tasks" by auto
    with that show ?thesis
      by (simp add: main_def task_of_verb runTask_default)
  qed
  ultimately show ?thesis by simp
qed

theorem no_verb_or_unknown_verb_witness:
  "''db:migrate:redo'' \<notin> set tasks \<and> ''db:migrate:redo'' \<noteq> []
   \<and> main idle_engine example_env [''node'', ''cli.js'', ''db:migrate:redo''] example_world =
       (1, log ''Error: Task not found.'' (constructor example_world))
   \<and> main idle_engine example_env [''node'', ''cli.js''] example_world =
       (0, log usage (constructor example_world))"
  using no_verb_or_unknown_verb [where umzug = idle_engine and sys = example_env
      and node = "''node''" and script = "''cli.js''" and rest = "[]" and w = example_world
      and verb = "''db:migrate:redo''"]
  by (simp add: tasks_def)

subsection \<open>\<open>db:migrate:status\<close> and \<open>db:migrate:history\<close>\<close>

text \<open>
  C10. \<open>db:migrate:status\<close> lists the objects that \<open>pending()\<close> returns, by their
  \<open>file\<close>; \<open>db:migrate:history\<close> lists the strings that the storage returns, by
  themselves. When the list is not empty, a header is printed and then one line for each
  migration, in order: two spaces, the 1-based index, a closing parenthesis, a space,
  and the file name after \<open>replace('.js', '')\<close>. (For any list, of objects or strings,
  the names listed are the \<open>file\<close> of each object and each string itself, up to the
  first object whose \<open>file\<close> is empty, where the listing stops with a \<open>TypeError\<close>.) The
  replacement removes the first occurrence of \<open>.js\<close> only: when \<open>.js\<close> occurs at
  position \<open>i\<close> and at no smaller position, the result is the name without these three
  characters, what follows them kept as it is; when \<open>.js\<close> does not occur the name is
  unchanged. So \<open>a.js.old.js\<close> is printed as \<open>a.old.js\<close>.
\<close>

theorem listing_prints_file_names:
  "(umzug Pending (engine w) = (evs, Inr (map Migration fs), e') \<and> fs \<noteq> [] \<and> [] \<notin> set fs \<longrightarrow>
      stdout (snd (main umzug sys (node # script # ''db:migrate:status'' # rest) w)) =
        stdout w @ concat (map (emitted (listeners (constructor w))) evs) @
        ''Pending migrations:'' #
        map (\<lambda>(i, n). ''  '' @ decimal i @ '') '' @ replace ''.js'' [] n) (enumerate 1 fs))
   \<and> (umzug Executed (engine w) = (evs, Inr (map Name ss), e') \<and> ss \<noteq> [] \<longrightarrow>
      stdout (snd (main umzug sys (node # script # ''db:migrate:history'' # rest) w)) =
        stdout w @ concat (map (emitted (listeners (constructor w))) evs) @
        ''Executed migrations:'' #
        map (\<lambda>(i, n). ''  '' @ decimal i @ '') '' @ replace ''.js'' [] n) (enumerate 1 ss))
   \<and> ((verb = ''db:migrate:status'' \<and> c = Pending \<and> header = ''Pending migrations:''
     \<or> verb = ''db:migrate:history'' \<and> c = Executed \<and> header = ''Executed migrations:'')
    \<and> umzug c (engine w) = (evs, Inr migrations, e') \<and> migrations \<noteq> [] \<longrightarrow>
      stdout (snd (main umzug sys (node # script # verb # rest) w)) =
        stdout w @ concat (map (emitted (listeners (constructor w))) evs) @
        header #
        map (\<lambda>(i, n). ''  '' @ decimal i @ '') '' @ replace ''.js'' [] n)
          (enumerate 1 (listed migrations)) @
        (if length (listed migrations) = length migrations then []
         else [''Error: '' @ message replace_is_not_a_function]))
   \<and> listed (Name s # migrations) = s # listed migrations
   \<and> listed (Migration f # migrations) = (if f = [] then [] else f # listed migrations)
   \<and> (take 3 (drop i s) = ''.js'' \<and> (\<forall>j<i. take 3 (drop j s) \<noteq> ''.js'') \<longrightarrow>
        replace ''.js'' [] s = take i s @ drop (i + 3) s)
   \<and> ((\<forall>j\<le>length s. take 3 (drop j s) \<noteq> ''.js'') \<longrightarrow> replace ''.js'' [] s = s)
   \<and> replace ''.js'' [] ''a.js.old.js'' = ''a.old.js''"
proof (intro conjI impI)
  assume a: "umzug Pending (engine w) = (evs, Inr (map Migration fs), e') \<and> fs \<noteq> [] \<and> [] \<notin> set fs"
  then have "umzug Pending (engine w) = (evs, Inr (map Migration fs), e')" "map Migration fs \<noteq> []"
    by simp_all
  from status_stdout [where umzug = umzug and w = w, OF this] a
  show "stdout (snd (main umzug sys (node # script # ''db:migrate:status'' # rest) w)) =
        stdout w @ concat (map (emitted (listeners (constructor w))) evs) @
        ''Pending migrations:'' #
        map (\<lambda>(i, n). ''  '' @ decimal i @ '') '' @ replace ''.js'' [] n) (enumerate 1 fs)"
    by (simp add: listed_Migration)
next
  assume a: "umzug Executed (engine w) = (evs, Inr (map Name ss), e') \<and> ss \<noteq> []"
  then have "umzug Executed (engine w) = (evs, Inr (map Name ss), e')" "map Name ss \<noteq> []"
    by simp_all
  from history_stdout [where umzug = umzug and w = w, OF this]
  show "stdout (snd (main umzug sys (node # script # ''db:migrate:history'' # rest) w)) =
        stdout w @ concat (map (emitted (listeners (constructor w))) evs) @
        ''Executed migrations:'' #
        map (\<lambda>(i, n). ''  '' @ decimal i @ '') '' @ replace ''.js'' [] n) (enumerate 1 ss)"
    by (simp add: listed_Name)
next
  assume a: "(verb = ''db:migrate:status'' \<and> c = Pending \<and> header = ''Pending migrations:''
     \<or> verb = ''db:migrate:history'' \<and> c = Executed \<and> header = ''Executed migrations:'')
    \<and> umzug c (engine w) = (evs, Inr migrations, e') \<and> migrations \<noteq> []"
  then have r: "umzug c (engine w) = (evs, Inr migrations, e')" "migrations \<noteq> []"
    by simp_all
  from a have "verb = ''db:migrate:status'' \<and> c = Pending \<and> header = ''Pending migrations:''
     \<or> verb = ''db:migrate:history'' \<and> c = Executed \<and> header = ''Executed migrations:''"
    by simp
  then show "stdout (snd (main umzug sys (node # script # verb # rest) w)) =
        stdout w @ concat (map (emitted (listeners (constructor w))) evs) @
        header #
        map (\<lambda>(i, n). ''  '' @ decimal i @ '') '' @ replace ''.js'' [] n)
          (enumerate 1 (listed migrations)) @
        (if length (listed migrations) = length migrations then []
         else [''Error: '' @ message replace_is_not_a_function])"
  proof (elim disjE conjE)
    assume v: "verb = ''db:migrate:status''" "c = Pending" "header = ''Pending migrations:''"
    from r v(2) have "umzug Pending (engine w) = (evs, Inr migrations, e')" by simp
    from status_stdout [where umzug = umzug and w = w, OF this r(2)] show ?thesis
      by (simp only: v)
  next
    assume v: "verb = ''db:migrate:history''" "c = Executed" "header = ''Executed migrations:''"
    from r v(2) have "umzug Executed (engine w) = (evs, Inr migrations, e')" by simp
    from history_stdout [where umzug = umzug and w = w, OF this r(2)] show ?thesis
      by (simp only: v)
  qed
next
  show "listed (Name s # migrations) = s # listed migrations"
    by (simp add: file_or_migration_def)
  show "listed (Migration f # migrations) = (if f = [] then [] else f # listed migrations)"
    by (simp add: file_or_migration_def)
next
  have len: "length ''.js'' = 3" by simp
  assume a: "take 3 (drop i s) = ''.js'' \<and> (\<forall>j<i. take 3 (drop j s) \<noteq> ''.js'')"
  from a have 1: "take 3 (drop i s) = ''.js''" by (rule conjunct1)
  from a have 2: "\<forall>j<i. take 3 (drop j s) \<noteq> ''.js''" by (rule conjunct2)
  show "replace ''.js'' [] s = take i s @ drop (i + 3) s"
    using replace_first_occurrence [of "''.js''" i s "[]", unfolded len, OF 1 2]
    by (simp only: append_Nil)
next
  have len: "length ''.js'' = 3" by simp
  assume a: "\<forall>j\<le>length s. take 3 (drop j s) \<noteq> ''.js''"
  show "replace ''.js'' [] s = s"
    by (rule replace_no_occurrence [of s "''.js''" "[]", unfolded len, OF a])
next
  show "replace ''.js'' [] ''a.js.old.js'' = ''a.old.js''"
    by simp
qed

theorem listing_prints_file_names_witness:
  "busy_engine Pending (engine example_world) =
     ([], Inr (map Migration [''20230101120000-create-users.js'', ''a.js.old.js'']), ())
   \<and> stdout (snd (main busy_engine example_env [''node'', ''cli.js'', ''db:migrate:status''] example_world)) =
       [''Pending migrations:'', ''  1) 20230101120000-create-users'', ''  2) a.old.js'']
   \<and> busy_engine Executed (engine example_world) =
     ([], Inr (map Name [''20230101120000-create-users.js'']), ())
   \<and> stdout (snd (main busy_engine example_env [''node'', ''cli.js'', ''db:migrate:history''] example_world)) =
       [''Executed migrations:'', ''  1) 20230101120000-create-users'']
   \<and> take 3 (drop 1 ''a.js.old.js'') = ''.js''
   \<and> take 3 (drop 0 ''a.js.old.js'') \<noteq> ''.js''
   \<and> replace ''.js'' [] ''a.js.old.js'' = take 1 ''a.js.old.js'' @ drop (1 + 3) ''a.js.old.js''
   \<and> replace ''.js'' [] ''ab'' = ''ab''"
proof -
  have pending: "busy_engine Pending (engine example_world) =
     ([], Inr (map Migration [''20230101120000-create-users.js'', ''a.js.old.js'']), ())"
    and executed: "busy_engine Executed (engine example_world) =
     ([], Inr (map Name [''20230101120000-create-users.js'']), ())"
    by (simp_all add: busy_engine_def)
  have objects: "[''20230101120000-create-users.js'', ''a.js.old.js''] \<noteq> []
      \<and> [] \<notin> set [''20230101120000-create-users.js'', ''a.js.old.js'']"
    and strings: "[''20230101120000-create-users.js''] \<noteq> []"
    by simp_all
  have first: "take 3 (drop 1 ''a.js.old.js'') = ''.js''" "\<forall>j<1::nat. take 3 (drop j ''a.js.old.js'') \<noteq> ''.js''"
    by simp_all
  have none: "\<forall>j\<le>length ''ab''. take 3 (drop j ''ab'') \<noteq> ''.js''"
  proof (intro allI impI)
    fix j :: nat
    have "length (take 3 (drop j ''ab'')) \<noteq> length ''.js''" by simp
    then show "take 3 (drop j ''ab'') \<noteq> ''.js''" by (metis (no_types))
  qed
  note t = listing_prints_file_names [where umzug = busy_engine and sys = example_env
      and node = "''node''" and script = "''cli.js''" and rest = "[]" and w = example_world
      and verb = "''db:migrate:status''" and c = Pending and header = "''Pending migrations:''"
      and evs = "[]" and e' = "()" and migrations = "[]" and f = "[]"
      and fs = "[''20230101120000-create-users.js'', ''a.js.old.js'']"
      and ss = "[''20230101120000-create-users.js'']"]
  note status0 = mp [OF t [where i = 0 and s = "[]", THEN conjunct1] conjI [OF pending objects]]
  note history0 = mp [OF t [where i = 0 and s = "[]", THEN conjunct2, THEN conjunct1]
      conjI [OF executed strings]]
  have status: "stdout (snd (main busy_engine example_env [''node'', ''cli.js'', ''db:migrate:status''] example_world)) =
       [''Pending migrations:'', ''  1) 20230101120000-create-users'', ''  2) a.old.js'']"
    using status0 by (simp add: example_world_def decimal_1 digit_def)
  have history: "stdout (snd (main busy_engine example_env [''node'', ''cli.js'', ''db:migrate:history''] example_world)) =
       [''Executed migrations:'', ''  1) 20230101120000-create-users'']"
    using history0 by (simp add: example_world_def decimal_1 digit_def)
  have a: "replace ''.js'' [] ''a.js.old.js'' = take 1 ''a.js.old.js'' @ drop (1 + 3) ''a.js.old.js''"
    by (rule mp [OF t [where i = 1 and s = "''a.js.old.js''", THEN conjunct2, THEN conjunct2,
          THEN conjunct2, THEN conjunct2, THEN conjunct2, THEN conjunct1] conjI [OF first]])
  have b: "replace ''.js'' [] ''ab'' = ''ab''"
    by (rule mp [OF t [where i = 0 and s = "''ab''", THEN conjunct2, THEN conjunct2,
          THEN conjunct2, THEN conjunct2, THEN conjunct2, THEN conjunct2, THEN conjunct1] none])
  have zero: "take 3 (drop 0 ''a.js.old.js'') \<noteq> ''.js''"
    by simp
  show ?thesis
    using pending status executed history first(1) zero a b by (intro conjI)
qed

subsection \<open>\<open>migration:generate\<close>\<close>

text \<open>
  C1, as the claim states it, fails: the name of the file that is written ends in
  \<open>.js\<close>. For the name \<open>add-index\<close> at 2023-01-02 03:04:05 UTC no file named
  \<open>20230102030405-add-index\<close> exists afterwards; the one write stream was opened on
  \<open>20230102030405-add-index.js\<close>, and that file holds the bytes of the template.
\<close>

theorem generate_file_name_counterexample:
  "files (snd (main idle_engine example_env [''node'', ''cli.js'', ''migration:generate'', ''add-index'']
       example_world)) ''/app/migrations/20230102030405-add-index'' = None
   \<and> files (snd (main idle_engine example_env [''node'', ''cli.js'', ''migration:generate'', ''add-index'']
       example_world)) ''/app/migrations/20230102030405-add-index.js'' = Some ''module.exports = {};''
   \<and> streams (snd (main idle_engine example_env [''node'', ''cli.js'', ''migration:generate'', ''add-index'']
       example_world)) =
       [CreateReadStream ''/app/migrations/migration.sample.js'',
        CreateWriteStream ''/app/migrations/20230102030405-add-index.js'']"
  by (simp add: main_def task_of_def options_of_def at_def runTask_def generate_def pipe_def
      createWriteStream_def createReadStream_def constructor_def on_def log_def
      example_env_def example_world_def timestamp_def format_def toString_def padStart_def
      decimal.simps digit_def Let_def)

text \<open>
  C1, amended. For every non-empty migration name and every UTC instant whose year has
  four digits (1000 to 9999), when the template \<open>migrations/migration.sample.js\<close> can
  be read, and the target can be opened for writing and is not the template itself,
  \<open>migration:generate\<close> exits with code 0 and changes the file system at exactly one
  path: the file that \<open>path.resolve\<close> finds for \<open>migrations\<close> and the file name made of
  the timestamp, a hyphen, the given name and \<open>.js\<close> then holds the bytes of the
  template. One read stream (on the template) and one write stream (on that file) are
  opened, and the engine is not called. The timestamp is 14 decimal digits: the four of
  the year, then two each, zero-padded, for the month (counted from 1), the day, the
  hours, the minutes and the seconds.
\<close>

theorem generate_creates_file:
  assumes "1000 \<le> getUTCFullYear (now sys)" "getUTCFullYear (now sys) \<le> 9999"
    and "getUTCMonth (now sys) \<le> 11" "getUTCDate (now sys) \<le> 31" "getUTCHours (now sys) \<le> 23"
    and "getUTCMinutes (now sys) \<le> 59" "getUTCSeconds (now sys) \<le> 59"
    and "name \<noteq> []"
    and "files w (resolve sys [cwd sys, ''migrations'', ''migration.sample.js'']) = Some template"
    and "write_error sys (resolve sys [cwd sys, ''migrations'', timestamp (now sys) @ ''-'' @ name @ ''.js'']) = None"
    and "resolve sys [cwd sys, ''migrations'', timestamp (now sys) @ ''-'' @ name @ ''.js''] \<noteq>
         resolve sys [cwd sys, ''migrations'', ''migration.sample.js'']"
  shows "fst (main umzug sys (node # script # ''migration:generate'' # name # rest) w) = 0
    \<and> files (snd (main umzug sys (node # script # ''migration:generate'' # name # rest) w)) =
        (files w)(resolve sys [cwd sys, ''migrations'', timestamp (now sys) @ ''-'' @ name @ ''.js''] \<mapsto> template)
    \<and> streams (snd (main umzug sys (node # script # ''migration:generate'' # name # rest) w)) =
        streams w @
          [CreateReadStream (resolve sys [cwd sys, ''migrations'', ''migration.sample.js'']),
           CreateWriteStream (resolve sys [cwd sys, ''migrations'', timestamp (now sys) @ ''-'' @ name @ ''.js''])]
    \<and> calls (snd (main umzug sys (node # script # ''migration:generate'' # name # rest) w)) = calls w
    \<and> length (timestamp (now sys)) = 14
    \<and> set (timestamp (now sys)) \<subseteq> set ''0123456789''
    \<and> timestamp (now sys) =
        [digit (nat (getUTCFullYear (now sys)) div 1000), digit (nat (getUTCFullYear (now sys)) div 100),
         digit (nat (getUTCFullYear (now sys)) div 10), digit (nat (getUTCFullYear (now sys))),
         digit ((getUTCMonth (now sys) + 1) div 10), digit (getUTCMonth (now sys) + 1),
         digit (getUTCDate (now sys) div 10), digit (getUTCDate (now sys)),
         digit (getUTCHours (now sys) div 10), digit (getUTCHours (now sys)),
         digit (getUTCMinutes (now sys) div 10), digit (getUTCMinutes (now sys)),
         digit (getUTCSeconds (now sys) div 10), digit (getUTCSeconds (now sys))]"
proof -
  let ?argv = "node # script # ''migration:generate'' # name # rest"
  have files: "files (constructor w) (resolve sys [cwd sys, ''migrations'', ''migration.sample.js'']) = Some template"
    using assms(9) by simp
  have run: "runTask umzug sys (task_of ?argv) (options_of ?argv) (constructor w) =
      generate sys name (constructor w)"
    using assms(8) by (simp add: generate_without_name)
  note copy = generate_copies [OF files assms(10) assms(11)]
  have ts: "timestamp (now sys) =
        [digit (nat (getUTCFullYear (now sys)) div 1000), digit (nat (getUTCFullYear (now sys)) div 100),
         digit (nat (getUTCFullYear (now sys)) div 10), digit (nat (getUTCFullYear (now sys))),
         digit ((getUTCMonth (now sys) + 1) div 10), digit (getUTCMonth (now sys) + 1),
         digit (getUTCDate (now sys) div 10), digit (getUTCDate (now sys)),
         digit (getUTCHours (now sys) div 10), digit (getUTCHours (now sys)),
         digit (getUTCMinutes (now sys) div 10), digit (getUTCMinutes (now sys)),
         digit (getUTCSeconds (now sys) div 10), digit (getUTCSeconds (now sys))]"
    using assms(1-7) by (rule timestamp_digits)
  have len: "length (timestamp (now sys)) = 14"
    by (subst ts) simp
  have digits: "set (timestamp (now sys)) \<subseteq> set ''0123456789''"
    using digit_in_digits by (subst ts) simp
  have "fst (main umzug sys ?argv w) = 0"
    by (simp add: main_def run copy)
  moreover have "files (snd (main umzug sys ?argv w)) =
        (files w)(resolve sys [cwd sys, ''migrations'', timestamp (now sys) @ ''-'' @ name @ ''.js''] \<mapsto> template)"
    by (simp add: main_def run copy)
  moreover have "streams (snd (main umzug sys ?argv w)) =
        streams w @
          [CreateReadStream (resolve sys [cwd sys, ''migrations'', ''migration.sample.js'']),
           CreateWriteStream (resolve sys [cwd sys, ''migrations'', timestamp (now sys) @ ''-'' @ name @ ''.js''])]"
    by (simp add: main_def run copy)
  moreover have "calls (snd (main umzug sys ?argv w)) = calls w"
    by (simp add: main_def run copy)
  ultimately show ?thesis
    using len digits ts by (intro conjI)
qed

theorem generate_creates_file_witness:
  "1000 \<le> getUTCFullYear (now example_env) \<and> getUTCFullYear (now example_env) \<le> 9999
   \<and> getUTCMonth (now example_env) \<le> 11 \<and> getUTCDate (now example_env) \<le> 31
   \<and> getUTCHours (now example_env) \<le> 23 \<and> getUTCMinutes (now example_env) \<le> 59
   \<and> getUTCSeconds (now example_env) \<le> 59
   \<and> ''add-index'' \<noteq> []
   \<and> files example_world (resolve example_env [cwd example_env, ''migrations'', ''migration.sample.js'']) =
       Some ''module.exports = {};''
   \<and> write_error example_env
        (resolve example_env [cwd example_env, ''migrations'',
           timestamp (now example_env) @ ''-'' @ ''add-index'' @ ''.js'']) = None
   \<and> resolve example_env [cwd example_env, ''migrations'',
           timestamp (now example_env) @ ''-'' @ ''add-index'' @ ''.js''] \<noteq>
       resolve example_env [cwd example_env, ''migrations'', ''migration.sample.js'']
   \<and> timestamp (now example_env) = ''20230102030405''
   \<and> fst (main idle_engine example_env [''node'', ''cli.js'', ''migration:generate'', ''add-index'']
        example_world) = 0
   \<and> files (snd (main idle_engine example_env [''node'', ''cli.js'', ''migration:generate'', ''add-index'']
        example_world)) =
       (files example_world)(''/app/migrations/20230102030405-add-index.js'' \<mapsto> ''module.exports = {};'')"
proof -
  have ts: "timestamp (now example_env) = ''20230102030405''"
    by (simp add: example_env_def timestamp_def format_def toString_def padStart_def
        decimal.simps digit_def)
  have target: "resolve example_env [cwd example_env, ''migrations'',
      timestamp (now example_env) @ ''-'' @ ''add-index'' @ ''.js''] =
      ''/app/migrations/20230102030405-add-index.js''"
    by (simp add: ts) (simp add: example_env_def)
  have source: "resolve example_env [cwd example_env, ''migrations'', ''migration.sample.js''] =
      ''/app/migrations/migration.sample.js''"
    by (simp add: example_env_def)
  have d: "1000 \<le> getUTCFullYear (now example_env)" "getUTCFullYear (now example_env) \<le> 9999"
    "getUTCMonth (now example_env) \<le> 11" "getUTCDate (now example_env) \<le> 31"
    "getUTCHours (now example_env) \<le> 23" "getUTCMinutes (now example_env) \<le> 59"
    "getUTCSeconds (now example_env) \<le> 59"
    by (simp_all add: example_env_def)
  have n: "''add-index'' \<noteq> []"
    by simp
  have f: "files example_world (resolve example_env [cwd example_env, ''migrations'', ''migration.sample.js'']) =
       Some ''module.exports = {};''"
    by (simp add: source) (simp add: example_world_def)
  have we: "write_error example_env
        (resolve example_env [cwd example_env, ''migrations'',
           timestamp (now example_env) @ ''-'' @ ''add-index'' @ ''.js'']) = None"
    by (simp add: example_env_def)
  have ne: "resolve example_env [cwd example_env, ''migrations'',
           timestamp (now example_env) @ ''-'' @ ''add-index'' @ ''.js''] \<noteq>
       resolve example_env [cwd example_env, ''migrations'', ''migration.sample.js'']"
    by (simp only: target source) simp
  note t = generate_creates_file [where umzug = idle_engine and node = "''node''"
      and script = "''cli.js''" and rest = "[]" and w = example_world, OF d n f we ne]
  have 1: "fst (main idle_engine example_env [''node'', ''cli.js'', ''migration:generate'', ''add-index'']
        example_world) = 0"
    by (rule t [THEN conjunct1])
  have 2: "files (snd (main idle_engine example_env [''node'', ''cli.js'', ''migration:generate'', ''add-index'']
        example_world)) =
       (files example_world)(''/app/migrations/20230102030405-add-index.js'' \<mapsto> ''module.exports = {};'')"
    using t [THEN conjunct2, THEN conjunct1] by (simp only: target)
  show ?thesis
    using d n f we ne ts 1 2 by (intro conjI)
qed

subsection \<open>The command line\<close>

text \<open>
  C6. The command line \<open>argv\<close> is counted from the program: \<open>argv[0]\<close> is the script,
  and the array \<open>process.argv\<close> that the script reads is the path of the interpreter
  followed by \<open>argv\<close>. For every command line the verb that is dispatched is \<open>argv[1]\<close>,
  and \<open>argv[2]\<close> is the optional positional argument: it becomes \<open>migrateTo\<close> for
  \<open>db:migrate\<close>, \<open>undoTo\<close> for \<open>db:migrate:undo\<close> and \<open>migrationName\<close> for
  \<open>migration:generate\<close>, and is not read for any other verb. So the run depends on
  \<open>argv[1]\<close> and \<open>argv[2]\<close> only; \<open>argv[2]\<close> is the target of \<open>up\<close> for \<open>db:migrate\<close>,
  the target of \<open>down\<close> for \<open>db:migrate:undo\<close>, and the name in the file name for
  \<open>migration:generate\<close>.
\<close>

theorem verb_and_argument_positions:
  "task_of (node # argv) = at argv 1
   \<and> migrateTo (options_of (node # argv)) =
       (if at argv 1 = Some ''db:migrate'' then at argv 2 else None)
   \<and> undoTo (options_of (node # argv)) =
       (if at argv 1 = Some ''db:migrate:undo'' then at argv 2 else None)
   \<and> migrationName (options_of (node # argv)) =
       (if at argv 1 = Some ''migration:generate'' then at argv 2 else None)
   \<and> (at argv 1 = at argv' 1 \<and> at argv 2 = at argv' 2 \<longrightarrow>
      main umzug sys (node # argv) w = main umzug sys (node' # argv') w)
   \<and> (at argv 1 = at argv' 1 \<and> at argv 1 \<noteq> Some ''db:migrate''
      \<and> at argv 1 \<noteq> Some ''db:migrate:undo'' \<and> at argv 1 \<noteq> Some ''migration:generate'' \<longrightarrow>
      main umzug sys (node # argv) w = main umzug sys (node' # argv') w)
   \<and> (at argv 1 = Some ''db:migrate'' \<longrightarrow>
      calls (snd (main umzug sys (node # argv) w)) = calls w @ [Up (map_option Target (at argv 2))])
   \<and> (at argv 1 = Some ''db:migrate:undo'' \<longrightarrow>
      calls (snd (main umzug sys (node # argv) w)) = calls w @ [Down (map_option Target (at argv 2))])
   \<and> (at argv 1 = Some ''migration:generate'' \<and> at argv 2 = Some name \<and> name \<noteq> [] \<longrightarrow>
      streams (snd (main umzug sys (node # argv) w)) =
        streams w @
          [CreateReadStream (resolve sys [cwd sys, ''migrations'', ''migration.sample.js'']),
           CreateWriteStream (resolve sys [cwd sys, ''migrations'', timestamp (now sys) @ ''-'' @ name @ ''.js''])])"
proof -
  have task: "task_of (node # argv) = at argv 1"
    by (simp add: task_of_def at_shift)
  have opts: "migrateTo (options_of (node # argv)) =
       (if at argv 1 = Some ''db:migrate'' then at argv 2 else None)"
    "undoTo (options_of (node # argv)) =
       (if at argv 1 = Some ''db:migrate:undo'' then at argv 2 else None)"
    "migrationName (options_of (node # argv)) =
       (if at argv 1 = Some ''migration:generate'' then at argv 2 else None)"
    by (simp_all add: options_of_def task_of_def at_shift)
  note p = process_argv_positions [where argv = "node # argv" and argv' = "node' # argv'"
      and umzug = umzug and sys = sys and w = w and name = name, unfolded at_shift]
  show ?thesis
    using task opts p by (intro conjI) (elim conjE, assumption)+
qed

theorem verb_and_argument_positions_witness:
  "at [''cli.js'', ''db:migrate'', ''x''] 1 = Some ''db:migrate''
   \<and> at [''cli.js'', ''db:migrate'', ''x''] 2 = Some ''x''
   \<and> task_of [''node'', ''cli.js'', ''db:migrate'', ''x''] = Some ''db:migrate''
   \<and> migrateTo (options_of [''node'', ''cli.js'', ''db:migrate'', ''x'']) = Some ''x''
   \<and> calls (snd (main idle_engine example_env [''node'', ''cli.js'', ''db:migrate'', ''x''] example_world)) =
       [Up (Some (Target ''x''))]
   \<and> at [''cli.js'', ''db:migrate:undo'', ''x''] 1 = Some ''db:migrate:undo''
   \<and> calls (snd (main idle_engine example_env [''node'', ''cli.js'', ''db:migrate:undo'', ''x''] example_world)) =
       [Down (Some (Target ''x''))]
   \<and> at [''cli.js'', ''db:reset'', ''x''] 1 = at [''/app/cli.js'', ''db:reset''] 1
   \<and> main idle_engine example_env [''node'', ''cli.js'', ''db:reset'', ''x''] example_world =
       main idle_engine example_env [''/usr/bin/node'', ''/app/cli.js'', ''db:reset''] example_world
   \<and> at [''cli.js'', ''db:migrate'', ''x''] 1 = at [''/app/cli.js'', ''db:migrate'', ''x'', ''y''] 1
   \<and> at [''cli.js'', ''db:migrate'', ''x''] 2 = at [''/app/cli.js'', ''db:migrate'', ''x'', ''y''] 2
   \<and> main idle_engine example_env [''node'', ''cli.js'', ''db:migrate'', ''x''] example_world =
       main idle_engine example_env [''/usr/bin/node'', ''/app/cli.js'', ''db:migrate'', ''x'', ''y''] example_world
   \<and> at [''cli.js'', ''migration:generate'', ''add-index''] 2 = Some ''add-index''
   \<and> streams (snd (main idle_engine example_env [''node'', ''cli.js'', ''migration:generate'', ''add-index'']
        example_world)) =
       [CreateReadStream ''/app/migrations/migration.sample.js'',
        CreateWriteStream ''/app/migrations/20230102030405-add-index.js'']"
proof -
  have 1: "at [''cli.js'', ''db:migrate'', ''x''] 1 = Some ''db:migrate''"
    and 2: "at [''cli.js'', ''db:migrate:undo'', ''x''] 1 = Some ''db:migrate:undo''"
    and 3: "at [''cli.js'', ''db:reset'', ''x''] 1 = at [''/app/cli.js'', ''db:reset''] 1
      \<and> at [''cli.js'', ''db:reset'', ''x''] 1 \<noteq> Some ''db:migrate''
      \<and> at [''cli.js'', ''db:reset'', ''x''] 1 \<noteq> Some ''db:migrate:undo''
      \<and> at [''cli.js'', ''db:reset'', ''x''] 1 \<noteq> Some ''migration:generate''"
    and 4: "at [''cli.js'', ''db:migrate'', ''x''] 2 = Some ''x''"
      "at [''cli.js'', ''db:migrate:undo'', ''x''] 2 = Some ''x''"
      "calls example_world = []" "streams example_world = []"
    and 5: "at [''cli.js'', ''db:migrate'', ''x''] 1 = at [''/app/cli.js'', ''db:migrate'', ''x'', ''y''] 1
      \<and> at [''cli.js'', ''db:migrate'', ''x''] 2 = at [''/app/cli.js'', ''db:migrate'', ''x'', ''y''] 2"
    and 6: "at [''cli.js'', ''migration:generate'', ''add-index''] 1 = Some ''migration:generate''
      \<and> at [''cli.js'', ''migration:generate'', ''add-index''] 2 = Some ''add-index''
      \<and> ''add-index'' \<noteq> []"
    by (simp_all add: at_def example_world_def)
  have ts: "timestamp (now example_env) = ''20230102030405''"
    by (simp add: example_env_def timestamp_def format_def toString_def padStart_def
        decimal.simps digit_def)
  have paths: "resolve example_env [cwd example_env, ''migrations'', ''migration.sample.js''] =
      ''/app/migrations/migration.sample.js''"
    "resolve example_env [cwd example_env, ''migrations'', ''20230102030405'' @ ''-'' @ ''add-index'' @ ''.js''] =
      ''/app/migrations/20230102030405-add-index.js''"
    by (simp_all add: example_env_def)
  have task: "task_of [''node'', ''cli.js'', ''db:migrate'', ''x''] = at [''cli.js'', ''db:migrate'', ''x''] 1"
    by (rule verb_and_argument_positions [THEN conjunct1])
  have mt: "migrateTo (options_of [''node'', ''cli.js'', ''db:migrate'', ''x'']) =
      (if at [''cli.js'', ''db:migrate'', ''x''] 1 = Some ''db:migrate''
       then at [''cli.js'', ''db:migrate'', ''x''] 2 else None)"
    by (rule verb_and_argument_positions [THEN conjunct2, THEN conjunct1])
  have a: "calls (snd (main idle_engine example_env [''node'', ''cli.js'', ''db:migrate'', ''x''] example_world)) =
      calls example_world @ [Up (map_option Target (at [''cli.js'', ''db:migrate'', ''x''] 2))]"
    by (rule mp [OF verb_and_argument_positions [where node' = "[]" and argv' = "[]" and name = "[]", THEN conjunct2, THEN conjunct2, THEN conjunct2, THEN conjunct2, THEN conjunct2, THEN conjunct2, THEN conjunct1] 1])
  have b: "calls (snd (main idle_engine example_env [''node'', ''cli.js'', ''db:migrate:undo'', ''x''] example_world)) =
      calls example_world @ [Down (map_option Target (at [''cli.js'', ''db:migrate:undo'', ''x''] 2))]"
    by (rule mp [OF verb_and_argument_positions [where node' = "[]" and argv' = "[]" and name = "[]", THEN conjunct2, THEN conjunct2, THEN conjunct2, THEN conjunct2, THEN conjunct2, THEN conjunct2, THEN conjunct2, THEN conjunct1] 2])
  have c: "main idle_engine example_env [''node'', ''cli.js'', ''db:reset'', ''x''] example_world =
       main idle_engine example_env [''/usr/bin/node'', ''/app/cli.js'', ''db:reset''] example_world"
    by (rule mp [OF verb_and_argument_positions [where name = "[]", THEN conjunct2, THEN conjunct2, THEN conjunct2, THEN conjunct2, THEN conjunct2, THEN conjunct1] 3])
  have d: "main idle_engine example_env [''node'', ''cli.js'', ''db:migrate'', ''x''] example_world =
       main idle_engine example_env [''/usr/bin/node'', ''/app/cli.js'', ''db:migrate'', ''x'', ''y''] example_world"
    by (rule mp [OF verb_and_argument_positions [where name = "[]", THEN conjunct2, THEN conjunct2, THEN conjunct2, THEN conjunct2, THEN conjunct1] 5])
  have e: "streams (snd (main idle_engine example_env [''node'', ''cli.js'', ''migration:generate'', ''add-index'']
        example_world)) =
      streams example_world @
        [CreateReadStream (resolve example_env [cwd example_env, ''migrations'', ''migration.sample.js'']),
         CreateWriteStream (resolve example_env [cwd example_env, ''migrations'',
            timestamp (now example_env) @ ''-'' @ ''add-index'' @ ''.js''])]"
    by (rule mp [OF verb_and_argument_positions [where node' = "[]" and argv' = "[]", THEN conjunct2, THEN conjunct2, THEN conjunct2, THEN conjunct2, THEN conjunct2, THEN conjunct2, THEN conjunct2, THEN conjunct2] 6])
  have e': "streams (snd (main idle_engine example_env [''node'', ''cli.js'', ''migration:generate'', ''add-index'']
        example_world)) =
       [CreateReadStream ''/app/migrations/migration.sample.js'',
        CreateWriteStream ''/app/migrations/20230102030405-add-index.js'']"
    by (simp only: e ts paths 4 append_Nil)
  show ?thesis
    using 1 2 3 5 6 task mt a b c d e' by (simp add: 4)
qed

end
